theory Spec2Isabelle
  imports Complex_Main "HOL-Library.Char_ord" "HOL-Library.List_Lexorder"
begin

section \<open>Pricing kernel (ammEngine.ts)\<close>

text \<open>
  JavaScript numbers are modelled as real numbers: every arithmetic operation is the exact
  one, rounding, overflow, \<open>Infinity\<close> and \<open>NaN\<close> are not modelled. Division is HOL's
  total division (\<open>x / 0 = 0\<close>) where JavaScript yields \<open>Infinity\<close> or \<open>NaN\<close>; every
  theorem below that depends on a quotient assumes its divisor is not zero (a liquidity
  parameter \<open>b > 0\<close>, a positive share count).
\<close>

datatype position_type = YES | NO

record MarketState =
  total_yes_shares :: real
  total_no_shares :: real
  liquidity_pool :: real

record QuoteResult =
  shares :: real
  avgPricePerShare :: real
  totalCost :: real
  priceImpact :: real
  newYesPrice :: real
  newNoPrice :: real

record TradeResult =
  tr_shares :: real
  tr_avgPricePerShare :: real
  tr_totalCost :: real
  newYesShares :: real
  newNoShares :: real

definition lmsrCost :: "real \<Rightarrow> real \<Rightarrow> real \<Rightarrow> real" where
  "lmsrCost qYes qNo b =
     (let maxQ = max (qYes / b) (qNo / b);
          expSum = exp (qYes / b - maxQ) + exp (qNo / b - maxQ)
      in b * (maxQ + ln expSum))"

definition getYesPrice :: "'a MarketState_scheme \<Rightarrow> real" where
  "getYesPrice state =
     (let qYes = total_yes_shares state; qNo = total_no_shares state; b = liquidity_pool state
      in if b = 0 then 0.5
         else let maxQ = max (qYes / b) (qNo / b);
                  expYes = exp (qYes / b - maxQ);
                  expNo = exp (qNo / b - maxQ)
              in expYes / (expYes + expNo))"

definition getNoPrice :: "'a MarketState_scheme \<Rightarrow> real" where
  "getNoPrice state = 1 - getYesPrice state"

definition tolerance :: real where
  "tolerance = 0.0001"

text \<open>
  The cost of the inventory after \<open>mid\<close> more shares of one side, as the body of the
  bisection loop computes it.
\<close>

definition newCostAfter :: "'a MarketState_scheme \<Rightarrow> position_type \<Rightarrow> real \<Rightarrow> real" where
  "newCostAfter state positionType mid =
     (if positionType = YES
      then lmsrCost (total_yes_shares state + mid) (total_no_shares state) (liquidity_pool state)
      else lmsrCost (total_yes_shares state) (total_no_shares state + mid) (liquidity_pool state))"

text \<open>
  The \<open>for\<close> loop of \<open>calculateSharesForAmount\<close>; the first argument is the number of
  iterations still to run. An iteration returns \<open>mid\<close> when the cost is within the
  tolerance, and the loop falls through to \<open>(low + high) / 2\<close> when the count is used up.
\<close>

fun bisection :: "nat \<Rightarrow> 'a MarketState_scheme \<Rightarrow> position_type \<Rightarrow> real \<Rightarrow> real \<Rightarrow> real \<Rightarrow> real" where
  "bisection 0 state positionType targetCost low high = (low + high) / 2"
| "bisection (Suc n) state positionType targetCost low high =
     (let mid = (low + high) / 2;
          newCost = newCostAfter state positionType mid
      in if \<bar>newCost - targetCost\<bar> < tolerance then mid
         else if newCost < targetCost
              then bisection n state positionType targetCost mid high
              else bisection n state positionType targetCost low mid)"

definition calculateSharesForAmount :: "'a MarketState_scheme \<Rightarrow> position_type \<Rightarrow> real \<Rightarrow> real" where
  "calculateSharesForAmount state positionType amount =
     (let currentCost = lmsrCost (total_yes_shares state) (total_no_shares state) (liquidity_pool state);
          targetCost = currentCost + amount
      in bisection 100 state positionType targetCost 0 (amount * 10))"

definition calculateAmountForShares :: "'a MarketState_scheme \<Rightarrow> position_type \<Rightarrow> real \<Rightarrow> real" where
  "calculateAmountForShares state positionType shs =
     (let qYes = total_yes_shares state; qNo = total_no_shares state; b = liquidity_pool state;
          currentCost = lmsrCost qYes qNo b;
          newCost = (if positionType = YES then lmsrCost (qYes - shs) qNo b
                     else lmsrCost qYes (qNo - shs) b)
      in max 0 (currentCost - newCost))"

definition getBuyQuote :: "'a MarketState_scheme \<Rightarrow> position_type \<Rightarrow> real \<Rightarrow> QuoteResult" where
  "getBuyQuote state positionType amount =
     (let qYes = total_yes_shares state; qNo = total_no_shares state; b = liquidity_pool state;
          currentYesPrice = getYesPrice state;
          currentNoPrice = getNoPrice state;
          currentPrice = (if positionType = YES then currentYesPrice else currentNoPrice);
          sharesReceived = calculateSharesForAmount state positionType amount;
          avgPrice = (if sharesReceived > 0 then amount / sharesReceived else 0);
          newQYes = (if positionType = YES then qYes + sharesReceived else qYes);
          newQNo = (if positionType = YES then qNo else qNo + sharesReceived);
          newState = \<lparr>total_yes_shares = newQYes, total_no_shares = newQNo, liquidity_pool = b\<rparr>;
          impact = (if currentPrice > 0 then (avgPrice - currentPrice) / currentPrice else 0)
      in \<lparr>shares = sharesReceived, avgPricePerShare = avgPrice, totalCost = amount,
          priceImpact = impact, newYesPrice = getYesPrice newState,
          newNoPrice = getNoPrice newState\<rparr>)"

definition getSellQuote :: "'a MarketState_scheme \<Rightarrow> position_type \<Rightarrow> real \<Rightarrow> QuoteResult" where
  "getSellQuote state positionType shs =
     (let qYes = total_yes_shares state; qNo = total_no_shares state; b = liquidity_pool state;
          currentYesPrice = getYesPrice state;
          currentNoPrice = getNoPrice state;
          currentPrice = (if positionType = YES then currentYesPrice else currentNoPrice);
          amountReceived = calculateAmountForShares state positionType shs;
          avgPrice = (if shs > 0 then amountReceived / shs else 0);
          newQYes = (if positionType = YES then qYes - shs else qYes);
          newQNo = (if positionType = YES then qNo else qNo - shs);
          newState = \<lparr>total_yes_shares = newQYes, total_no_shares = newQNo, liquidity_pool = b\<rparr>;
          impact = (if currentPrice > 0 then (currentPrice - avgPrice) / currentPrice else 0)
      in \<lparr>shares = shs, avgPricePerShare = avgPrice, totalCost = amountReceived,
          priceImpact = impact, newYesPrice = getYesPrice newState,
          newNoPrice = getNoPrice newState\<rparr>)"

definition executeBuy :: "'a MarketState_scheme \<Rightarrow> position_type \<Rightarrow> real \<Rightarrow> TradeResult" where
  "executeBuy state positionType amount =
     (let quote = getBuyQuote state positionType amount;
          newQYes = (if positionType = YES then total_yes_shares state + shares quote
                     else total_yes_shares state);
          newQNo = (if positionType = YES then total_no_shares state
                    else total_no_shares state + shares quote)
      in \<lparr>tr_shares = shares quote, tr_avgPricePerShare = avgPricePerShare quote,
          tr_totalCost = amount, newYesShares = newQYes, newNoShares = newQNo\<rparr>)"

definition executeSell :: "'a MarketState_scheme \<Rightarrow> position_type \<Rightarrow> real \<Rightarrow> TradeResult" where
  "executeSell state positionType shs =
     (let quote = getSellQuote state positionType shs;
          newQYes = (if positionType = YES then total_yes_shares state - shs
                     else total_yes_shares state);
          newQNo = (if positionType = YES then total_no_shares state
                    else total_no_shares state - shs)
      in \<lparr>tr_shares = shs, tr_avgPricePerShare = avgPricePerShare quote,
          tr_totalCost = totalCost quote, newYesShares = newQYes, newNoShares = newQNo\<rparr>)"

section \<open>Store (schema.sql)\<close>

text \<open>
  The tables of the SQLite schema, with the columns the trading and resolution services
  read or write. A table is the list of its rows in insertion order; \<open>users\<close>, which the
  services only address through its primary key, is a map from \<open>id\<close> to the row.
  \<open>resolution_criteria\<close>, \<open>source_response\<close> and \<open>calculation_steps\<close> hold JSON
  text written by \<open>JSON.stringify\<close> and read back by \<open>JSON.parse\<close>; the model stores the
  value itself, so a text on which \<open>JSON.parse\<close> would throw is outside it. The columns
  \<open>status\<close>, \<open>outcome\<close>, \<open>position_type\<close> and \<open>type\<close> hold the literals of the
  TypeScript unions and are datatypes. Timestamps are ISO strings compared as text, as
  SQLite compares them.
  Column defaults that no statement of the services sets (\<open>created_at\<close>, \<open>timestamp\<close>) and
  foreign-key checks are left out.
\<close>

datatype market_status = Open | Closed | Resolved

datatype trade_type = BUY | SELL

datatype json = JNull | JBool bool | JNum real | JStr string
  | JArr "json list" | JObj "(string \<times> json) list"

datatype error = Error string | SqliteError string | TypeError string

fun message :: "error \<Rightarrow> string" where
  "message (Error m) = m"
| "message (SqliteError m) = m"
| "message (TypeError m) = m"

fun outcome_string :: "position_type \<Rightarrow> string" where
  "outcome_string YES = ''YES''"
| "outcome_string NO = ''NO''"

record ResolutionCriteria =
  criteria_path :: string
  criteria_operator :: string
  criteria_value :: json

record market_row = MarketState +
  market_id :: string
  resolution_source :: string
  resolution_criteria :: ResolutionCriteria
  closes_at :: string
  resolved_at :: "string option"
  outcome :: "position_type option"
  status :: market_status

record user_row =
  balance :: real

record position_row =
  pos_id :: string
  pos_user_id :: string
  pos_market_id :: string
  pos_type :: position_type
  pos_shares :: real
  pos_avg_price :: real

record transaction_row =
  tx_id :: string
  tx_user_id :: string
  tx_market_id :: string
  tx_type :: trade_type
  tx_position_type :: position_type
  tx_shares :: real
  tx_price_per_share :: real
  tx_total_cost :: real

record price_history_row =
  ph_id :: string
  ph_market_id :: string
  yes_price :: real
  no_price :: real

record CalculationStep =
  step :: nat
  description :: string
  step_input :: "string option"
  step_output :: "string option"

record resolution_row =
  res_id :: string
  res_market_id :: string
  res_outcome :: position_type
  source_url :: string
  source_response :: json
  calculation_steps :: "CalculationStep list"
  final_value :: string
  resolved_by :: string

record database =
  users :: "string \<rightharpoonup> user_row"
  markets :: "market_row list"
  positions :: "position_row list"
  transactions :: "transaction_row list"
  price_history :: "price_history_row list"
  resolutions :: "resolution_row list"

text \<open>\<open>SELECT * FROM markets WHERE id = ?\<close> with \<open>.get\<close>: the first matching row.\<close>

definition getMarket :: "database \<Rightarrow> string \<Rightarrow> market_row option" where
  "getMarket db mid = find (\<lambda>m. market_id m = mid) (markets db)"

definition getPosition :: "database \<Rightarrow> string \<Rightarrow> string \<Rightarrow> position_type \<Rightarrow> position_row option" where
  "getPosition db uid mid t =
     find (\<lambda>p. pos_user_id p = uid \<and> pos_market_id p = mid \<and> pos_type p = t) (positions db)"

text \<open>\<open>UPDATE markets SET total_yes_shares = ?, total_no_shares = ? WHERE id = ?\<close>\<close>

definition updateMarket :: "real \<Rightarrow> real \<Rightarrow> string \<Rightarrow> market_row list \<Rightarrow> market_row list" where
  "updateMarket y n mid ms =
     map (\<lambda>m. if market_id m = mid then m\<lparr>total_yes_shares := y, total_no_shares := n\<rparr> else m) ms"

text \<open>\<open>UPDATE users SET balance = balance + ? WHERE id = ?\<close>; the buy passes the amount to
  \<open>balance - ?\<close>.\<close>

definition creditBalance :: "real \<Rightarrow> string \<Rightarrow> (string \<rightharpoonup> user_row) \<Rightarrow> (string \<rightharpoonup> user_row)" where
  "creditBalance x uid us =
     (case us uid of None \<Rightarrow> us | Some u \<Rightarrow> us(uid \<mapsto> u\<lparr>balance := balance u + x\<rparr>))"




definition updatePositionSell :: "real \<Rightarrow> string \<Rightarrow> position_row list \<Rightarrow> position_row list" where
  "updatePositionSell newShares pid ps =
     map (\<lambda>p. if pos_id p = pid then p\<lparr>pos_shares := newShares\<rparr> else p) ps"

definition deletePosition :: "string \<Rightarrow> position_row list \<Rightarrow> position_row list" where
  "deletePosition pid ps = filter (\<lambda>p. pos_id p \<noteq> pid) ps"

definition insertTransaction :: "transaction_row \<Rightarrow> transaction_row list \<Rightarrow> error + transaction_row list" where
  "insertTransaction row ts =
     (if \<exists>t \<in> set ts. tx_id t = tx_id row
      then Inl (SqliteError ''UNIQUE constraint failed: transactions.id'')
      else Inr (ts @ [row]))"

definition insertPriceHistory :: "price_history_row \<Rightarrow> price_history_row list \<Rightarrow> error + price_history_row list" where
  "insertPriceHistory row hs =
     (if \<exists>h \<in> set hs. ph_id h = ph_id row
      then Inl (SqliteError ''UNIQUE constraint failed: price_history.id'')
      else Inr (hs @ [row]))"

definition insertResolution :: "resolution_row \<Rightarrow> resolution_row list \<Rightarrow> error + resolution_row list" where
  "insertResolution row rs =
     (if \<exists>r \<in> set rs. res_id r = res_id row
      then Inl (SqliteError ''UNIQUE constraint failed: resolutions.id'')
      else if \<exists>r \<in> set rs. res_market_id r = res_market_id row
      then Inl (SqliteError ''UNIQUE constraint failed: resolutions.market_id'')
      else Inr (rs @ [row]))"

section \<open>Trading service (tradingService.ts)\<close>

text \<open>
  Every service function takes the store and returns the store it leaves behind together
  with its result or the error it throws. The identifiers that the source draws from
  \<open>uuidv4()\<close> are arguments. A statement that fails inside \<open>db.transaction\<close> rolls the
  transaction back: the store returned with the error is the one the call started from.
\<close>

record TradeRequest =
  marketId :: string
  positionType :: position_type
  amount :: real
  action :: trade_type
  userId :: string

record TradeResponse =
  success :: bool
  transactionId :: string
  resp_shares :: real
  pricePerShare :: real
  resp_totalCost :: real
  newBalance :: real
  position_shares :: real
  position_avgPrice :: real

text \<open>\<open>getMarketState\<close> selects the inventory and the status of the market; the model
  returns the whole row.\<close>

definition getMarketState :: "database \<Rightarrow> string \<Rightarrow> error + market_row" where
  "getMarketState db mid =
     (case getMarket db mid of None \<Rightarrow> Inl (Error ''Market not found'') | Some market \<Rightarrow> Inr market)"


text \<open>The last two steps of both transactions: the transaction row and the price point.\<close>

definition recordTrade :: "string \<Rightarrow> string \<Rightarrow> database \<Rightarrow> TradeRequest \<Rightarrow> market_row \<Rightarrow> TradeResult
    \<Rightarrow> trade_type \<Rightarrow> real \<Rightarrow> real \<Rightarrow> error + database" where
  "recordTrade txId priceHistoryId db req market result ty shs cash =
     (case insertTransaction \<lparr>tx_id = txId, tx_user_id = userId req, tx_market_id = marketId req,
              tx_type = ty, tx_position_type = positionType req, tx_shares = shs,
              tx_price_per_share = tr_avgPricePerShare result, tx_total_cost = cash\<rparr>
             (transactions db) of
        Inl e \<Rightarrow> Inl e
      | Inr ts \<Rightarrow>
          (let newState = \<lparr>total_yes_shares = newYesShares result,
                            total_no_shares = newNoShares result,
                            liquidity_pool = liquidity_pool market\<rparr>
           in case insertPriceHistory \<lparr>ph_id = priceHistoryId, ph_market_id = marketId req,
                     yes_price = getYesPrice newState, no_price = getNoPrice newState\<rparr>
                    (price_history db) of
                Inl e \<Rightarrow> Inl e
              | Inr hs \<Rightarrow> Inr (db\<lparr>transactions := ts, price_history := hs\<rparr>)))"



definition sellTransaction :: "string \<Rightarrow> string \<Rightarrow> database \<Rightarrow> TradeRequest \<Rightarrow> market_row
    \<Rightarrow> position_row \<Rightarrow> TradeResult \<Rightarrow> error + (database \<times> real)" where
  "sellTransaction txId priceHistoryId db req market position result =
     (let db1 = db\<lparr>markets := updateMarket (newYesShares result) (newNoShares result) (marketId req) (markets db)\<rparr>;
          db2 = db1\<lparr>users := creditBalance (tr_totalCost result) (userId req) (users db1)\<rparr>;
          newShares = pos_shares position - amount req;
          db3 = (if newShares \<le> 0.0001
                 then db2\<lparr>positions := deletePosition (pos_id position) (positions db2)\<rparr>
                 else db2\<lparr>positions := updatePositionSell newShares (pos_id position) (positions db2)\<rparr>)
      in case recordTrade txId priceHistoryId db3 req market result SELL (amount req) (tr_totalCost result) of
           Inl e \<Rightarrow> Inl e
         | Inr db4 \<Rightarrow> Inr (db4, newShares))"

definition executeSellTrade :: "string \<Rightarrow> string \<Rightarrow> database \<Rightarrow> TradeRequest
    \<Rightarrow> database \<times> (error + TradeResponse)" where
  "executeSellTrade txId priceHistoryId db req =
     (case getMarketState db (marketId req) of
        Inl e \<Rightarrow> (db, Inl e)
      | Inr market \<Rightarrow>
          if status market \<noteq> Open then (db, Inl (Error ''Market is not open for trading''))
          else case getPosition db (userId req) (marketId req) (positionType req) of
            None \<Rightarrow> (db, Inl (Error ''Insufficient shares to sell''))
          | Some position \<Rightarrow>
              if pos_shares position < amount req then (db, Inl (Error ''Insufficient shares to sell''))
              else
                (let result = executeSell market (positionType req) (amount req)
                 in case sellTransaction txId priceHistoryId db req market position result of
                      Inl e \<Rightarrow> (db, Inl e)
                    | Inr (db', newShares) \<Rightarrow>
                        (case users db' (userId req) of
                           None \<Rightarrow> (db', Inl (TypeError ''Cannot read properties of undefined (reading balance)''))
                         | Some updatedUser \<Rightarrow>
                             (db', Inr \<lparr>success = True, transactionId = txId,
                                resp_shares = amount req,
                                pricePerShare = tr_avgPricePerShare result,
                                resp_totalCost = tr_totalCost result,
                                newBalance = balance updatedUser,
                                position_shares = max 0 newShares,
                                position_avgPrice = pos_avg_price position\<rparr>))))"

section \<open>Resolution service\<close>

text \<open>
  The repository holds two versions of the resolution service. The one stored after
  \<open>ammEngine.ts\<close> resolves manual markets by probability and falls back to the probability
  when the data source fails; the other one (\<open>part_003\<close>) lets the failure escape and
  leaves manual markets out of the scheduler's query. The second carries the suffix
  \<open>_part_003\<close>; the transaction that settles the market is the same in both.

  \<open>dataSourceService.ts\<close> reaches the network and uses JavaScript's dynamic coercions;
  its four functions are arguments of the resolver here (the record \<open>host\<close>), together with
  the two formatting built-ins the resolver calls, so every theorem holds whatever they
  return. \<open>extractValue\<close> returns \<open>None\<close> for \<open>undefined\<close>; \<open>evaluateCondition\<close> may throw.
\<close>

record DataSourceResult =
  ds_success :: bool
  ds_data :: json
  ds_error :: string

record host =
  fetchFromSource :: "string \<Rightarrow> DataSourceResult"
  extractValue :: "json \<Rightarrow> string \<Rightarrow> json option"
  evaluateCondition :: "json \<Rightarrow> string \<Rightarrow> json \<Rightarrow> error + bool"
  generateCalculationSteps :: "string \<Rightarrow> json \<Rightarrow> string \<Rightarrow> string \<Rightarrow> json \<Rightarrow> json
      \<Rightarrow> position_type \<Rightarrow> CalculationStep list"
  String_of :: "json \<Rightarrow> string"
  toFixed2 :: "real \<Rightarrow> string"

record payout =
  payout_userId :: string
  payout_amount :: real
  payout_positionType :: position_type
  payout_shares :: real

record ResolutionResult =
  rr_marketId :: string
  rr_outcome :: position_type
  rr_resolution :: resolution_row
  rr_payouts :: "payout list"

text \<open>What the resolver decides before it opens the transaction: outcome, source
  response, calculation steps and final value.\<close>

type_synonym decision = "position_type \<times> json \<times> CalculationStep list \<times> string"

definition manualDecision :: "position_type \<Rightarrow> decision" where
  "manualDecision manualOutcome =
     (manualOutcome,
      JObj [(''manual'', JBool True), (''outcome'', JStr (outcome_string manualOutcome))],
      [\<lparr>step = 1, description = ''Market resolved manually'', step_input = None,
        step_output = Some (''Manual outcome: '' @ outcome_string manualOutcome)\<rparr>],
      outcome_string manualOutcome)"

definition probabilityDecision :: "host \<Rightarrow> market_row \<Rightarrow> decision" where
  "probabilityDecision h market =
     (let yesPrice = getYesPrice market;
          outcome = (if yesPrice > 0.5 then YES else NO)
      in (outcome,
          JObj [(''manual'', JBool True), (''probability_based'', JBool True),
                (''yes_price'', JNum yesPrice), (''outcome'', JStr (outcome_string outcome))],
          [\<lparr>step = 1, description = ''Market resolved using probability'',
            step_input = Some (''Current YES price: '' @ toFixed2 h (yesPrice * 100) @ ''%''),
            step_output = Some (''Outcome: '' @ outcome_string outcome @ '' (''
               @ (if yesPrice > 0.5 then ''YES probability > 50%'' else ''NO probability >= 50%'')
               @ '')'')\<rparr>],
          outcome_string outcome))"

text \<open>The body of the \<open>try\<close> block: fetch, extract, evaluate.\<close>

definition oracleDecision :: "host \<Rightarrow> market_row \<Rightarrow> error + decision" where
  "oracleDecision h market =
     (let criteria = resolution_criteria market;
          sourceResult = fetchFromSource h (resolution_source market)
      in if \<not> ds_success sourceResult
         then Inl (Error (''Failed to fetch data: '' @ ds_error sourceResult))
         else
           (let sourceResponse = ds_data sourceResult
            in case extractValue h sourceResponse (criteria_path criteria) of
                 None \<Rightarrow> Inl (Error (''Could not extract value at path: '' @ criteria_path criteria))
               | Some actualValue \<Rightarrow>
                   (case evaluateCondition h actualValue (criteria_operator criteria) (criteria_value criteria) of
                      Inl e \<Rightarrow> Inl e
                    | Inr conditionMet \<Rightarrow>
                        (let outcome = (if conditionMet then YES else NO)
                         in Inr (outcome, sourceResponse,
                                 generateCalculationSteps h (resolution_source market) sourceResponse
                                   (criteria_path criteria) (criteria_operator criteria)
                                   (criteria_value criteria) actualValue outcome,
                                 String_of h actualValue)))))"

text \<open>The \<open>catch\<close> block.\<close>

definition fallbackDecision :: "host \<Rightarrow> market_row \<Rightarrow> error \<Rightarrow> decision" where
  "fallbackDecision h market err =
     (let yesPrice = getYesPrice market;
          outcome = (if yesPrice > 0.5 then YES else NO)
      in (outcome,
          JObj [(''fallback'', JBool True), (''error'', JStr (message err)),
                (''probability_based'', JBool True), (''yes_price'', JNum yesPrice),
                (''outcome'', JStr (outcome_string outcome))],
          [\<lparr>step = 1, description = ''Source fetch failed, using probability-based resolution'',
            step_input = Some (''Error: '' @ message err),
            step_output = Some (''Current YES price: '' @ toFixed2 h (yesPrice * 100)
               @ ''% -> Outcome: '' @ outcome_string outcome)\<rparr>],
          outcome_string outcome))"

definition decide :: "host \<Rightarrow> market_row \<Rightarrow> position_type option \<Rightarrow> decision" where
  "decide h market manualOutcome =
     (case manualOutcome of
        Some mo \<Rightarrow> manualDecision mo
      | None \<Rightarrow>
          if resolution_source market = ''manual'' then probabilityDecision h market
          else case oracleDecision h market of
                 Inr d \<Rightarrow> d
               | Inl err \<Rightarrow> fallbackDecision h market err)"

definition decide_part_003 :: "host \<Rightarrow> market_row \<Rightarrow> position_type option \<Rightarrow> error + decision" where
  "decide_part_003 h market manualOutcome =
     (case manualOutcome of
        Some mo \<Rightarrow> Inr (manualDecision mo)
      | None \<Rightarrow> oracleDecision h market)"

text \<open>\<open>UPDATE markets SET status = 'resolved', outcome = ?, resolved_at = CURRENT_TIMESTAMP
  WHERE id = ?\<close>\<close>

definition markResolved :: "position_type \<Rightarrow> string \<Rightarrow> string \<Rightarrow> market_row list \<Rightarrow> market_row list" where
  "markResolved oc now mid ms =
     map (\<lambda>m. if market_id m = mid
               then m\<lparr>status := Resolved, outcome := Some oc, resolved_at := Some now\<rparr> else m) ms"

text \<open>The payout loop over the winning positions.\<close>

fun payWinners :: "position_row list \<Rightarrow> (string \<rightharpoonup> user_row) \<Rightarrow> payout list
    \<Rightarrow> (string \<rightharpoonup> user_row) \<times> payout list" where
  "payWinners [] us payouts = (us, payouts)"
| "payWinners (position # rest) us payouts =
     (let pay = pos_shares position * 1.0
      in payWinners rest (creditBalance pay (pos_user_id position) us)
           (payouts @ [\<lparr>payout_userId = pos_user_id position, payout_amount = pay,
                        payout_positionType = pos_type position,
                        payout_shares = pos_shares position\<rparr>]))"

definition executeResolution :: "string \<Rightarrow> string \<Rightarrow> database \<Rightarrow> string \<Rightarrow> market_row \<Rightarrow> decision
    \<Rightarrow> string \<Rightarrow> error + (database \<times> payout list)" where
  "executeResolution now resolutionId db mid market d resolvedBy =
     (case d of (oc, sourceResponse, calculationSteps, finalValue) \<Rightarrow>
        (case insertResolution \<lparr>res_id = resolutionId, res_market_id = mid, res_outcome = oc,
                 source_url = resolution_source market, source_response = sourceResponse,
                 calculation_steps = calculationSteps, final_value = finalValue,
                 resolved_by = resolvedBy\<rparr> (resolutions db) of
           Inl e \<Rightarrow> Inl e
         | Inr rs \<Rightarrow>
             (let db1 = db\<lparr>resolutions := rs\<rparr>;
                  db2 = db1\<lparr>markets := markResolved oc now mid (markets db1)\<rparr>;
                  winningPositions = filter (\<lambda>p. pos_market_id p = mid \<and> pos_type p = oc) (positions db2)
              in case payWinners winningPositions (users db2) [] of
                   (us, payouts) \<Rightarrow> Inr (db2\<lparr>users := us\<rparr>, payouts))))"

text \<open>The transaction and the read of the stored resolution that follows it.\<close>

definition settle :: "string \<Rightarrow> string \<Rightarrow> database \<Rightarrow> string \<Rightarrow> market_row \<Rightarrow> decision \<Rightarrow> string
    \<Rightarrow> database \<times> (error + ResolutionResult)" where
  "settle now resolutionId db mid market d resolvedBy =
     (case executeResolution now resolutionId db mid market d resolvedBy of
        Inl e \<Rightarrow> (db, Inl e)
      | Inr (db', payouts) \<Rightarrow>
          (case find (\<lambda>r. res_id r = resolutionId) (resolutions db') of
             None \<Rightarrow> (db', Inl (TypeError ''Cannot read properties of undefined (reading source_response)''))
           | Some resolution \<Rightarrow>
               (db', Inr \<lparr>rr_marketId = mid, rr_outcome = fst d, rr_resolution = resolution,
                          rr_payouts = payouts\<rparr>)))"

definition resolveMarket :: "host \<Rightarrow> string \<Rightarrow> string \<Rightarrow> database \<Rightarrow> string \<Rightarrow> position_type option
    \<Rightarrow> string \<Rightarrow> database \<times> (error + ResolutionResult)" where
  "resolveMarket h now resolutionId db mid manualOutcome resolvedBy =
     (case getMarket db mid of
        None \<Rightarrow> (db, Inl (Error ''Market not found''))
      | Some market \<Rightarrow>
          if status market = Resolved then (db, Inl (Error ''Market is already resolved''))
          else settle now resolutionId db mid market (decide h market manualOutcome) resolvedBy)"

definition resolveMarket_part_003 :: "host \<Rightarrow> string \<Rightarrow> string \<Rightarrow> database \<Rightarrow> string
    \<Rightarrow> position_type option \<Rightarrow> string \<Rightarrow> database \<times> (error + ResolutionResult)" where
  "resolveMarket_part_003 h now resolutionId db mid manualOutcome resolvedBy =
     (case getMarket db mid of
        None \<Rightarrow> (db, Inl (Error ''Market not found''))
      | Some market \<Rightarrow>
          if status market = Resolved then (db, Inl (Error ''Market is already resolved''))
          else case decide_part_003 h market manualOutcome of
                 Inl e \<Rightarrow> (db, Inl e)
               | Inr d \<Rightarrow> settle now resolutionId db mid market d resolvedBy)"

definition getMarketsForResolution :: "string \<Rightarrow> database \<Rightarrow> market_row list" where
  "getMarketsForResolution now db =
     filter (\<lambda>m. status m = Open \<and> closes_at m \<le> now) (markets db)"

definition getMarketsForResolution_part_003 :: "string \<Rightarrow> database \<Rightarrow> market_row list" where
  "getMarketsForResolution_part_003 now db =
     filter (\<lambda>m. status m = Open \<and> closes_at m \<le> now \<and> resolution_source m \<noteq> ''manual'')
       (markets db)"

section \<open>Manual resolution route (routes/resolutions.ts)\<close>




section \<open>Integrity conditions of the store\<close>

text \<open>The \<open>UNIQUE(user_id, market_id, position_type)\<close> constraint of \<open>positions\<close>.\<close>

definition positions_unique :: "database \<Rightarrow> bool" where
  "positions_unique db =
     distinct (map (\<lambda>p. (pos_user_id p, pos_market_id p, pos_type p)) (positions db))"


section \<open>Example stores\<close>

text \<open>
  The stores and requests at which the theorems below are evaluated. \<open>example_db\<close> is
  the payout scenario: one open market with \<open>b = 100\<close> that closes in 2099, user A holding
  30 YES shares bought at 0.45 and user B holding 20 NO shares bought at 0.55.
  \<open>failing_host\<close> is a data source whose every fetch fails.
\<close>

definition example_market :: market_row where
  "example_market =
     \<lparr>total_yes_shares = 0, total_no_shares = 0, liquidity_pool = 100,
      market_id = ''m1'',
      resolution_source = ''https://api.coingecko.com/api/v3/simple/price?ids=bitcoin&vs_currencies=usd'',
      resolution_criteria = \<lparr>criteria_path = ''bitcoin.usd'', criteria_operator = ''>='',
                               criteria_value = JNum 100000\<rparr>,
      closes_at = ''2099-01-01T00:00:00.000Z'', resolved_at = None, outcome = None,
      status = Open\<rparr>"

definition example_db :: database where
  "example_db =
     \<lparr>users = [''A'' \<mapsto> \<lparr>balance = 1000\<rparr>, ''B'' \<mapsto> \<lparr>balance = 1000\<rparr>],
      markets = [example_market],
      positions =
        [\<lparr>pos_id = ''p1'', pos_user_id = ''A'', pos_market_id = ''m1'', pos_type = YES,
          pos_shares = 30, pos_avg_price = 0.45\<rparr>,
         \<lparr>pos_id = ''p2'', pos_user_id = ''B'', pos_market_id = ''m1'', pos_type = NO,
          pos_shares = 20, pos_avg_price = 0.55\<rparr>],
      transactions = [], price_history = [], resolutions = []\<rparr>"

definition failing_host :: host where
  "failing_host =
     \<lparr>fetchFromSource = (\<lambda>url. \<lparr>ds_success = False, ds_data = JNull,
                                   ds_error = ''timeout of 10000ms exceeded''\<rparr>),
      extractValue = (\<lambda>d p. None),
      evaluateCondition = (\<lambda>x y z. Inr False),
      generateCalculationSteps = (\<lambda>u d p x e v c. []),
      String_of = (\<lambda>v. ''''),
      toFixed2 = (\<lambda>x. ''50.00'')\<rparr>"

definition example_now :: string where
  "example_now = ''2026-11-02T00:00:00.000Z''"

definition example_resolved :: "database \<times> (error + ResolutionResult)" where
  "example_resolved = resolveMarket failing_host example_now ''r1'' example_db ''m1'' (Some YES) ''manual''"

definition example_result :: ResolutionResult where
  "example_result =
     \<lparr>rr_marketId = ''m1'', rr_outcome = YES,
      rr_resolution =
        \<lparr>res_id = ''r1'', res_market_id = ''m1'', res_outcome = YES,
         source_url = resolution_source example_market,
         source_response = JObj [(''manual'', JBool True), (''outcome'', JStr ''YES'')],
         calculation_steps =
           [\<lparr>step = 1, description = ''Market resolved manually'', step_input = None,
             step_output = Some ''Manual outcome: YES''\<rparr>],
         final_value = ''YES'', resolved_by = ''manual''\<rparr>,
      rr_payouts = [\<lparr>payout_userId = ''A'', payout_amount = 30, payout_positionType = YES,
                     payout_shares = 30\<rparr>]\<rparr>"

definition example_market_resolved :: market_row where
  "example_market_resolved =
     example_market\<lparr>status := Resolved, outcome := Some YES, resolved_at := Some example_now\<rparr>"

definition example_manual_market :: market_row where
  "example_manual_market =
     \<lparr>total_yes_shares = 0, total_no_shares = 0, liquidity_pool = 100,
      market_id = ''m2'', resolution_source = ''manual'',
      resolution_criteria = \<lparr>criteria_path = ''manual'', criteria_operator = ''equals'',
                               criteria_value = JBool True\<rparr>,
      closes_at = ''2026-11-01T00:00:00.000Z'', resolved_at = None, outcome = None,
      status = Open\<rparr>"

definition example_manual_db :: database where
  "example_manual_db =
     \<lparr>users = Map.empty, markets = [example_manual_market], positions = [],
      transactions = [], price_history = [], resolutions = []\<rparr>"



definition example_sell :: TradeRequest where
  "example_sell = \<lparr>marketId = ''m1'', positionType = YES, amount = 10, action = SELL, userId = ''A''\<rparr>"


section \<open>The cost function on real numbers\<close>

lemma lmsrCost_log_sum_exp:
  assumes "b > 0"
  shows "lmsrCost qYes qNo b = b * ln (exp (qYes / b) + exp (qNo / b))"
proof -
  define m where "m = max (qYes / b) (qNo / b)"
  have pos: "exp (qYes / b - m) + exp (qNo / b - m) > 0"
    by (simp add: add_pos_pos)
  have "exp (qYes / b) + exp (qNo / b) = exp m * (exp (qYes / b - m) + exp (qNo / b - m))"
    by (simp add: distrib_left exp_diff)
  then have "ln (exp (qYes / b) + exp (qNo / b)) = m + ln (exp (qYes / b - m) + exp (qNo / b - m))"
    using pos by (simp add: ln_mult)
  then show ?thesis
    by (simp add: lmsrCost_def Let_def m_def)
qed

lemma lse_mono:
  fixes b d x y :: real
  assumes "b > 0" "d \<ge> 0"
  shows "b * ln (exp (x / b) + exp (y / b)) \<le> b * ln (exp ((x + d) / b) + exp (y / b))"
proof -
  have "exp (x / b) \<le> exp ((x + d) / b)"
    using assms by (simp add: divide_right_mono)
  then have "ln (exp (x / b) + exp (y / b)) \<le> ln (exp ((x + d) / b) + exp (y / b))"
    by (simp add: add_pos_pos)
  then show ?thesis using assms by simp
qed

lemma lse_lipschitz:
  fixes b d x y :: real
  assumes "b > 0" "d \<ge> 0"
  shows "b * ln (exp ((x + d) / b) + exp (y / b)) \<le> b * ln (exp (x / b) + exp (y / b)) + d"
proof -
  have e1: "exp (d / b) \<ge> 1" using assms by simp
  have pos: "exp (x / b) + exp (y / b) > 0" by (simp add: add_pos_pos)
  have "exp ((x + d) / b) + exp (y / b) \<le> exp (d / b) * (exp (x / b) + exp (y / b))"
  proof -
    have "exp ((x + d) / b) = exp (d / b) * exp (x / b)"
      by (simp add: add_divide_distrib exp_add)
    moreover have "exp (y / b) \<le> exp (d / b) * exp (y / b)"
      using e1 by simp
    ultimately show ?thesis by (simp add: distrib_left)
  qed
  then have "ln (exp ((x + d) / b) + exp (y / b)) \<le> ln (exp (d / b) * (exp (x / b) + exp (y / b)))"
    by (simp add: add_pos_pos)
  also have "\<dots> = d / b + ln (exp (x / b) + exp (y / b))"
    using pos by (simp add: ln_mult)
  finally have "b * ln (exp ((x + d) / b) + exp (y / b)) \<le> b * (d / b + ln (exp (x / b) + exp (y / b)))"
    using assms by simp
  also have "\<dots> = b * ln (exp (x / b) + exp (y / b)) + d"
    using assms by (simp add: distrib_left)
  finally show ?thesis .
qed

lemma lmsrCost_commute:
  "b > 0 \<Longrightarrow> lmsrCost x y b = lmsrCost y x b"
  by (simp add: lmsrCost_log_sum_exp add.commute)

lemma lmsrCost_yes_mono:
  assumes "b > 0" "s \<le> t"
  shows "lmsrCost (q + s) qn b \<le> lmsrCost (q + t) qn b"
proof -
  have eq: "q + s + (t - s) = q + t" by simp
  have "0 \<le> t - s" using assms by simp
  from lse_mono[OF assms(1) this, of "q + s" qn] show ?thesis
    unfolding eq by (simp only: lmsrCost_log_sum_exp[OF assms(1)])
qed

lemma lmsrCost_yes_lipschitz:
  assumes "b > 0" "s \<le> t"
  shows "lmsrCost (q + t) qn b \<le> lmsrCost (q + s) qn b + (t - s)"
proof -
  have eq: "q + s + (t - s) = q + t" by simp
  have "0 \<le> t - s" using assms by simp
  from lse_lipschitz[OF assms(1) this, of "q + s" qn] show ?thesis
    unfolding eq by (simp only: lmsrCost_log_sum_exp[OF assms(1)])
qed

lemma newCostAfter_mono:
  assumes "liquidity_pool state > 0" "s \<le> t"
  shows "newCostAfter state side s \<le> newCostAfter state side t"
proof (cases side)
  case YES
  then show ?thesis
    using lmsrCost_yes_mono[OF assms] by (simp add: newCostAfter_def)
next
  case NO
  then show ?thesis
    using lmsrCost_yes_mono[OF assms, of "total_no_shares state" "total_yes_shares state"]
    by (simp add: newCostAfter_def lmsrCost_commute[OF assms(1), of "total_yes_shares state"])
qed

lemma newCostAfter_lipschitz:
  assumes "liquidity_pool state > 0" "s \<le> t"
  shows "newCostAfter state side t \<le> newCostAfter state side s + (t - s)"
proof (cases side)
  case YES
  then show ?thesis
    using lmsrCost_yes_lipschitz[OF assms] by (simp add: newCostAfter_def)
next
  case NO
  then show ?thesis
    using lmsrCost_yes_lipschitz[OF assms, of "total_no_shares state" "total_yes_shares state"]
    by (simp add: newCostAfter_def lmsrCost_commute[OF assms(1), of "total_yes_shares state"])
qed

lemma newCostAfter_0:
  "newCostAfter state side 0 = lmsrCost (total_yes_shares state) (total_no_shares state) (liquidity_pool state)"
  by (simp add: newCostAfter_def)

lemma bisection_range:
  "low \<le> high \<Longrightarrow> low \<le> bisection n state side target low high \<and> bisection n state side target low high \<le> high"
proof (induction n arbitrary: low high)
  case 0
  then show ?case by simp
next
  case (Suc n)
  have m: "low \<le> (low + high) / 2" "(low + high) / 2 \<le> high" using Suc.prems by simp_all
  show ?case
    using Suc.IH[OF m(1)] Suc.IH[OF m(2)] m
    by (auto simp: Let_def)
qed

section \<open>The bisection of the buy quote\<close>

lemma bisection_upper:
  assumes "liquidity_pool state > 0" "low \<le> high"
    and "newCostAfter state side low \<le> target"
  shows "newCostAfter state side (bisection n state side target low high)
           < target + tolerance + (high - low) / 2 ^ n"
  using assms(2,3)
proof (induction n arbitrary: low high)
  case 0
  have "newCostAfter state side ((low + high) / 2)
          \<le> newCostAfter state side low + ((low + high) / 2 - low)"
    using newCostAfter_lipschitz[OF assms(1), of low "(low + high) / 2" side] "0.prems" by simp
  then show ?case using "0.prems" unfolding tolerance_def
    by (simp add: field_simps)
next
  case (Suc n)
  define mid where "mid = (low + high) / 2"
  have m: "low \<le> mid" "mid \<le> high" "high - mid = (high - low) / 2" "mid - low = (high - low) / 2"
    using Suc.prems by (simp_all add: mid_def field_simps)
  show ?case
  proof (cases "\<bar>newCostAfter state side mid - target\<bar> < tolerance")
    case True
    then have r: "bisection (Suc n) state side target low high = mid"
      by (simp add: mid_def Let_def)
    have "(high - low) / 2 ^ Suc n \<ge> 0" using Suc.prems by simp
    then show ?thesis unfolding r using True by linarith
  next
    case False
    show ?thesis
    proof (cases "newCostAfter state side mid < target")
      case True
      then have r: "bisection (Suc n) state side target low high = bisection n state side target mid high"
        using False by (simp add: mid_def Let_def)
      from Suc.IH[OF m(2)] True
      have "newCostAfter state side (bisection n state side target mid high)
              < target + tolerance + (high - mid) / 2 ^ n" by simp
      then show ?thesis unfolding r by (simp add: m(3) del: bisection.simps)
    next
      case nlt: False
      then have r: "bisection (Suc n) state side target low high = bisection n state side target low mid"
        using False by (simp add: mid_def Let_def)
      from Suc.IH[OF m(1) Suc.prems(2)]
      have "newCostAfter state side (bisection n state side target low mid)
              < target + tolerance + (mid - low) / 2 ^ n" .
      then show ?thesis unfolding r by (simp add: m(4) del: bisection.simps)
    qed
  qed
qed


lemma bisection_early:
  "\<bar>newCostAfter state side ((low + high) / 2) - target\<bar> < tolerance \<Longrightarrow> n > 0 \<Longrightarrow>
   bisection n state side target low high = (low + high) / 2"
  by (cases n) (simp_all add: Let_def)

lemma lmsrCost_from_balanced:
  fixes b s :: real
  assumes "b > 0" "0 \<le> s" "s \<le> b"
  shows "b * (s / b / 2 - (s / b / 2)\<^sup>2) \<le> lmsrCost s 0 b - lmsrCost 0 0 b"
    and "lmsrCost s 0 b - lmsrCost 0 0 b \<le> b * ((s / b + (s / b)\<^sup>2) / 2)"
proof -
  define x where "x = s / b"
  have x: "0 \<le> x" "x \<le> 1" using assms by (simp_all add: x_def)
  have d: "lmsrCost s 0 b - lmsrCost 0 0 b = b * (ln (exp x + 1) - ln 2)"
    using assms(1) by (simp add: lmsrCost_log_sum_exp x_def right_diff_distrib)
  have p: "exp x + 1 > 0" by (simp add: add_pos_pos)
  have eq: "ln (exp x + 1) - ln 2 = ln ((exp x + 1) / 2)"
    using p by (simp add: ln_div)
  have up: "ln ((exp x + 1) / 2) \<le> (x + x\<^sup>2) / 2"
  proof -
    have "ln ((exp x + 1) / 2) \<le> (exp x + 1) / 2 - 1"
      by (rule ln_le_minus_one) (simp add: add_pos_pos)
    also have "\<dots> \<le> (x + x\<^sup>2) / 2"
      using exp_bound[OF x] by simp
    finally show ?thesis .
  qed
  have lo: "x / 2 - (x / 2)\<^sup>2 \<le> ln ((exp x + 1) / 2)"
  proof -
    have "x / 2 - (x / 2)\<^sup>2 \<le> ln (1 + x / 2)"
      using x by (intro ln_one_plus_pos_lower_bound) simp_all
    also have "\<dots> \<le> ln ((exp x + 1) / 2)"
    proof -
      have "1 + x \<le> exp x" by simp
      then have "1 + x / 2 \<le> (exp x + 1) / 2" by simp
      moreover have "0 < 1 + x / 2" using x by simp
      ultimately show ?thesis by (simp add: ln_mono)
    qed
    finally show ?thesis .
  qed
  have d': "lmsrCost s 0 b - lmsrCost 0 0 b = b * ln ((exp x + 1) / 2)"
    by (simp only: d eq)
  have "b * (x / 2 - (x / 2)\<^sup>2) \<le> b * ln ((exp x + 1) / 2)"
    using lo assms(1) by (simp only: mult_le_cancel_left_pos)
  then show "b * (s / b / 2 - (s / b / 2)\<^sup>2) \<le> lmsrCost s 0 b - lmsrCost 0 0 b"
    by (simp only: d' x_def)
  have "b * ln ((exp x + 1) / 2) \<le> b * ((x + x\<^sup>2) / 2)"
    using up assms(1) by (simp only: mult_le_cancel_left_pos)
  then show "lmsrCost s 0 b - lmsrCost 0 0 b \<le> b * ((s / b + (s / b)\<^sup>2) / 2)"
    by (simp only: d' x_def)
qed




lemma sell_after_buy:
  "totalCost (getSellQuote
       \<lparr>total_yes_shares = newYesShares (executeBuy state side a),
        total_no_shares = newNoShares (executeBuy state side a),
        liquidity_pool = liquidity_pool state\<rparr>
       side (tr_shares (executeBuy state side a)))
   = max 0 (newCostAfter state side (calculateSharesForAmount state side a)
            - lmsrCost (total_yes_shares state) (total_no_shares state) (liquidity_pool state))"
  by (cases side)
     (simp_all add: getSellQuote_def executeBuy_def getBuyQuote_def calculateAmountForShares_def
        newCostAfter_def Let_def)

lemma balanced_small_step:
  "(12 / 100000 :: real) \<le> lmsrCost (1 / 4000) 0 100 - lmsrCost 0 0 100"
  "lmsrCost (1 / 4000) 0 100 - lmsrCost 0 0 100 \<le> (13 / 100000 :: real)"
proof -
  have lo: "100 * ((1 / 4000) / 100 / 2 - ((1 / 4000) / 100 / 2)\<^sup>2) \<le> lmsrCost (1 / 4000) 0 100 - lmsrCost 0 0 100"
    by (rule lmsrCost_from_balanced(1)) simp_all
  have up: "lmsrCost (1 / 4000) 0 100 - lmsrCost 0 0 100 \<le> 100 * (((1 / 4000) / 100 + ((1 / 4000) / 100)\<^sup>2) / 2)"
    by (rule lmsrCost_from_balanced(2)) simp_all
  show "(12 / 100000 :: real) \<le> lmsrCost (1 / 4000) 0 100 - lmsrCost 0 0 100"
    using lo by (simp add: power2_eq_square)
  show "lmsrCost (1 / 4000) 0 100 - lmsrCost 0 0 100 \<le> (13 / 100000 :: real)"
    using up by (simp add: power2_eq_square)
qed

lemma first_mid_accepted:
  "\<bar>newCostAfter \<lparr>total_yes_shares = 0, total_no_shares = 0, liquidity_pool = 100\<rparr> YES (1 / 4000)
      - (lmsrCost 0 0 100 + 1 / 20000)\<bar> < tolerance"
  using balanced_small_step by (simp add: newCostAfter_def tolerance_def abs_less_iff)

lemma first_mid_above:
  "lmsrCost 0 0 100 + 1 / 20000 < newCostAfter \<lparr>total_yes_shares = 0, total_no_shares = 0, liquidity_pool = 100\<rparr> YES (1 / 4000)"
  using balanced_small_step(1) by (simp add: newCostAfter_def)

lemma small_buy_shares:
  "calculateSharesForAmount \<lparr>total_yes_shares = 0, total_no_shares = 0, liquidity_pool = 100\<rparr> YES (1 / 20000) = 1 / 4000"
  using bisection_early[OF _ , of "\<lparr>total_yes_shares = 0, total_no_shares = 0, liquidity_pool = 100\<rparr>" YES 0 "1 / 2000" "lmsrCost 0 0 100 + 1 / 20000" 100]
    first_mid_accepted
  by (simp add: calculateSharesForAmount_def Let_def del: bisection.simps)


section \<open>Claims about the pricing kernel\<close>

text \<open>
  C2, as stated: selling the shares of a buy quote back on the post-buy inventory never
  yields more than the amount paid. The statement is false: the bisection accepts the first
  midpoint whose cost is within the tolerance of the target, also from above. With
  \<open>q = (0, 0)\<close>, \<open>b = 100\<close> and the amount \<open>0.00005\<close> the first midpoint \<open>0.00025\<close> costs
  about \<open>0.000125\<close>, is accepted, and sells back for more than the amount.
\<close>

theorem round_trip_counterexample:
  "\<not> totalCost (getSellQuote
       \<lparr>total_yes_shares = newYesShares (executeBuy \<lparr>total_yes_shares = 0, total_no_shares = 0, liquidity_pool = 100\<rparr> YES (1 / 20000)),
        total_no_shares = newNoShares (executeBuy \<lparr>total_yes_shares = 0, total_no_shares = 0, liquidity_pool = 100\<rparr> YES (1 / 20000)),
        liquidity_pool = 100\<rparr>
       YES (tr_shares (executeBuy \<lparr>total_yes_shares = 0, total_no_shares = 0, liquidity_pool = 100\<rparr> YES (1 / 20000))))
     \<le> 1 / 20000"
proof -
  have "liquidity_pool \<lparr>total_yes_shares = 0, total_no_shares = 0, liquidity_pool = 100\<rparr> = (100::real)" by simp
  note sb = sell_after_buy[of "\<lparr>total_yes_shares = 0, total_no_shares = 0, liquidity_pool = 100\<rparr>" YES "1 / 20000", unfolded this]
  show ?thesis
    unfolding sb small_buy_shares using first_mid_above by simp
qed

text \<open>
  C2, amended: for \<open>b > 0\<close> and an amount \<open>a > 0\<close>, the proceeds of selling the quoted
  shares back on the post-buy inventory are below \<open>a + 10\<^sup>-\<^sup>4 + 10 a / 2\<^sup>1\<^sup>0\<^sup>0\<close>: the amount
  plus the cost tolerance of the bisection and the width of its last interval.
\<close>

theorem round_trip_within_tolerance:
  assumes "liquidity_pool state > 0" and "a > 0"
  shows "totalCost (getSellQuote
       \<lparr>total_yes_shares = newYesShares (executeBuy state side a),
        total_no_shares = newNoShares (executeBuy state side a),
        liquidity_pool = liquidity_pool state\<rparr>
       side (tr_shares (executeBuy state side a)))
     < a + tolerance + a * 10 / 2 ^ 100"
proof -
  define c where "c = lmsrCost (total_yes_shares state) (total_no_shares state) (liquidity_pool state)"
  have "newCostAfter state side 0 \<le> c + a"
    using assms(2) by (simp add: newCostAfter_0 c_def)
  from bisection_upper[OF assms(1) _ this, of "a * 10" 100] assms(2)
  have "newCostAfter state side (calculateSharesForAmount state side a)
          < c + a + tolerance + a * 10 / 2 ^ 100"
    by (simp add: calculateSharesForAmount_def Let_def c_def del: bisection.simps)
  moreover have "0 < a + tolerance + a * 10 / 2 ^ 100"
    using assms(2) by (simp add: tolerance_def add_pos_pos)
  ultimately show ?thesis
    unfolding sell_after_buy c_def[symmetric] by simp
qed

text \<open>The amended C2 at \<open>q = (0, 0)\<close>, \<open>b = 100\<close>, a buy of 10 on YES.\<close>

theorem round_trip_within_tolerance_witness:
  "0 < liquidity_pool \<lparr>total_yes_shares = 0, total_no_shares = 0, liquidity_pool = 100\<rparr>
   \<and> (0::real) < 10
   \<and> totalCost (getSellQuote
       \<lparr>total_yes_shares = newYesShares (executeBuy \<lparr>total_yes_shares = 0, total_no_shares = 0, liquidity_pool = 100\<rparr> YES 10),
        total_no_shares = newNoShares (executeBuy \<lparr>total_yes_shares = 0, total_no_shares = 0, liquidity_pool = 100\<rparr> YES 10),
        liquidity_pool = liquidity_pool \<lparr>total_yes_shares = 0, total_no_shares = 0, liquidity_pool = 100\<rparr>\<rparr>
       YES (tr_shares (executeBuy \<lparr>total_yes_shares = 0, total_no_shares = 0, liquidity_pool = 100\<rparr> YES 10)))
     < 10 + tolerance + 10 * 10 / 2 ^ 100"
  using round_trip_within_tolerance
    [of "\<lparr>total_yes_shares = 0, total_no_shares = 0, liquidity_pool = 100\<rparr>" 10 YES]
  by simp




section \<open>Facts about the store and the resolution transaction\<close>

lemma creditBalance_apply:
  "creditBalance x uid us uid' =
     (if uid' = uid then map_option (\<lambda>u. u\<lparr>balance := balance u + x\<rparr>) (us uid) else us uid')"
  by (simp add: creditBalance_def split: option.splits)


lemma payWinners_users:
  "fst (payWinners ps us acc) uid =
     map_option (\<lambda>u. u\<lparr>balance := balance u + sum_list (map pos_shares (filter (\<lambda>p. pos_user_id p = uid) ps))\<rparr>) (us uid)"
proof (induction ps arbitrary: us acc)
  case Nil
  show ?case by (cases "us uid") simp_all
next
  case (Cons p ps)
  show ?case
    by (cases "us uid") (auto simp: Cons.IH creditBalance_apply Let_def add.assoc)
qed


lemma filter_key_single:
  "distinct (map f xs) \<Longrightarrow> x \<in> set xs \<Longrightarrow> filter (\<lambda>y. f y = f x) xs = [x]"
proof (induction xs)
  case Nil
  then show ?case by simp
next
  case (Cons y ys)
  show ?case
  proof (cases "y = x")
    case True
    have "f x \<notin> f ` set ys" using Cons.prems(1) True by simp
    then have "\<forall>z \<in> set ys. f z \<noteq> f x" by (metis imageI)
    then have "filter (\<lambda>z. f z = f x) ys = []"
      by (simp add: filter_empty_conv)
    then show ?thesis using True by simp
  next
    case False
    then have "x \<in> set ys" using Cons.prems(2) by simp
    moreover have "f y \<noteq> f x" using Cons.prems(1) \<open>x \<in> set ys\<close> by auto
    ultimately show ?thesis using Cons by simp
  qed
qed

lemma find_map_preserving:
  "(\<And>x. P (f x) = P x) \<Longrightarrow> find P (map f xs) = map_option f (find P xs)"
  by (induction xs) simp_all

lemma find_append_new:
  "\<forall>x \<in> set xs. \<not> P x \<Longrightarrow> P y \<Longrightarrow> find P (xs @ [y]) = Some y"
  by (induction xs) simp_all

lemma executeResolution_Inr:
  assumes "executeResolution now rid db mid market (oc, sr, cs, fv) by = Inr (db', payouts)"
  shows "resolutions db' = resolutions db @ [\<lparr>res_id = rid, res_market_id = mid, res_outcome = oc,
                 source_url = resolution_source market, source_response = sr,
                 calculation_steps = cs, final_value = fv, resolved_by = by\<rparr>]"
    and "\<forall>r \<in> set (resolutions db). res_id r \<noteq> rid \<and> res_market_id r \<noteq> mid"
    and "markets db' = markResolved oc now mid (markets db)"
    and "positions db' = positions db"
    and "transactions db' = transactions db"
    and "price_history db' = price_history db"
    and "users db' = fst (payWinners (filter (\<lambda>p. pos_market_id p = mid \<and> pos_type p = oc) (positions db)) (users db) [])"
    and "payouts = snd (payWinners (filter (\<lambda>p. pos_market_id p = mid \<and> pos_type p = oc) (positions db)) (users db) [])"
  using assms
  by (auto simp: executeResolution_def insertResolution_def Let_def split: if_splits prod.splits)

lemma executeResolution_succeeds:
  assumes "\<forall>r \<in> set (resolutions db). res_id r \<noteq> rid \<and> res_market_id r \<noteq> mid"
  shows "\<exists>db' payouts. executeResolution now rid db mid market d by = Inr (db', payouts)"
  using assms
  by (cases d) (auto simp: executeResolution_def insertResolution_def Let_def split: prod.splits)

lemma settle_Inr:
  assumes "settle now rid db mid market d by = (db', Inr r)"
  shows "executeResolution now rid db mid market d by = Inr (db', rr_payouts r)"
    and "rr_outcome r = fst d" and "rr_marketId r = mid"
    and "find (\<lambda>x. res_id x = rid) (resolutions db') = Some (rr_resolution r)"
  using assms
  by (auto simp: settle_def split: sum.splits prod.splits option.splits)

lemma settle_Inl:
  assumes "settle now rid db mid market d by = (db', Inl e)"
    and "\<forall>r \<in> set (resolutions db). res_id r \<noteq> rid \<and> res_market_id r \<noteq> mid"
  shows "False"
proof -
  obtain oc sr cs fv where d: "d = (oc, sr, cs, fv)" by (cases d) auto
  obtain db1 payouts where ex: "executeResolution now rid db mid market d by = Inr (db1, payouts)"
    using executeResolution_succeeds[OF assms(2)] by blast
  have "find (\<lambda>x. res_id x = rid) (resolutions db1) \<noteq> None"
    using executeResolution_Inr(1)[OF ex[unfolded d]] assms(2)
    by (simp add: find_append_new)
  then show False using assms(1) ex by (auto simp: settle_def split: option.splits)
qed

lemma settle_succeeds:
  assumes "\<forall>x \<in> set (resolutions db). res_id x \<noteq> rid \<and> res_market_id x \<noteq> mid"
  shows "\<exists>db' r. settle now rid db mid market d by = (db', Inr r)"
proof (cases "settle now rid db mid market d by")
  case (Pair db' x)
  show ?thesis
  proof (cases x)
    case (Inl e)
    then show ?thesis using settle_Inl[OF _ assms] Pair by blast
  next
    case (Inr r)
    then show ?thesis using Pair by blast
  qed
qed

lemma resolve_success_settle:
  assumes "resolveMarket h now rid db mid mo by = (db', Inr r)
           \<or> resolveMarket_part_003 h now rid db mid mo by = (db', Inr r)"
  shows "\<exists>market d. getMarket db mid = Some market \<and> status market \<noteq> Resolved
           \<and> settle now rid db mid market d by = (db', Inr r)"
  using assms
proof
  assume "resolveMarket h now rid db mid mo by = (db', Inr r)"
  then obtain market where "getMarket db mid = Some market" "status market \<noteq> Resolved"
    "settle now rid db mid market (decide h market mo) by = (db', Inr r)"
    by (auto simp: resolveMarket_def split: option.splits if_splits)
  then show ?thesis by blast
next
  assume "resolveMarket_part_003 h now rid db mid mo by = (db', Inr r)"
  then obtain market d where "getMarket db mid = Some market" "status market \<noteq> Resolved"
    "settle now rid db mid market d by = (db', Inr r)"
    by (auto simp: resolveMarket_part_003_def split: option.splits if_splits sum.splits)
  then show ?thesis by blast
qed

lemma winners_of_user:
  assumes "positions_unique db" "p \<in> set (positions db)"
    "pos_market_id p = mid" "pos_type p = oc"
  shows "filter (\<lambda>q. pos_user_id q = pos_user_id p)
           (filter (\<lambda>q. pos_market_id q = mid \<and> pos_type q = oc) (positions db)) = [p]"
proof -
  have "filter (\<lambda>q. (pos_user_id q, pos_market_id q, pos_type q) = (pos_user_id p, pos_market_id p, pos_type p))
          (positions db) = [p]"
    using assms(1,2) unfolding positions_unique_def by (rule filter_key_single)
  moreover have "filter (\<lambda>q. pos_user_id q = pos_user_id p)
           (filter (\<lambda>q. pos_market_id q = mid \<and> pos_type q = oc) (positions db))
     = filter (\<lambda>q. (pos_user_id q, pos_market_id q, pos_type q) = (pos_user_id p, pos_market_id p, pos_type p))
          (positions db)"
    unfolding filter_filter by (rule filter_cong) (use assms(3,4) in auto)
  ultimately show ?thesis by (simp only:)
qed

lemma settle_effect:
  assumes S: "settle now rid db mid market d by = (db', Inr r)"
  shows "resolutions db' = resolutions db @ [rr_resolution r]"
    and "res_id (rr_resolution r) = rid"
    and "res_market_id (rr_resolution r) = mid"
    and "res_outcome (rr_resolution r) = rr_outcome r"
    and "source_response (rr_resolution r) = fst (snd d)"
    and "rr_outcome r = fst d"
    and "markets db' = markResolved (rr_outcome r) now mid (markets db)"
    and "positions db' = positions db"
    and "transactions db' = transactions db"
    and "price_history db' = price_history db"
    and "users db' = fst (payWinners (filter (\<lambda>p. pos_market_id p = mid \<and> pos_type p = rr_outcome r) (positions db)) (users db) [])"
    and "rr_payouts r = snd (payWinners (filter (\<lambda>p. pos_market_id p = mid \<and> pos_type p = rr_outcome r) (positions db)) (users db) [])"
    and "resolved_by (rr_resolution r) = by"
proof -
  obtain oc sr cs fv where d: "d = (oc, sr, cs, fv)" by (cases d) auto
  note ex = settle_Inr(1)[OF S, unfolded d]
  note eff = executeResolution_Inr[OF ex]
  have oc: "rr_outcome r = oc" using settle_Inr(2)[OF S] d by simp
  have "find (\<lambda>x. res_id x = rid) (resolutions db') = Some (rr_resolution r)"
    by (rule settle_Inr(4)[OF S])
  then have row: "rr_resolution r = \<lparr>res_id = rid, res_market_id = mid, res_outcome = oc,
                 source_url = resolution_source market, source_response = sr,
                 calculation_steps = cs, final_value = fv, resolved_by = by\<rparr>"
    using eff(2) by (simp add: eff(1) find_append_new)
  show "resolutions db' = resolutions db @ [rr_resolution r]" by (simp add: eff(1) row)
  show "res_id (rr_resolution r) = rid" by (simp add: row)
  show "res_market_id (rr_resolution r) = mid" by (simp add: row)
  show "res_outcome (rr_resolution r) = rr_outcome r" by (simp add: row oc)
  show "source_response (rr_resolution r) = fst (snd d)" by (simp add: row d)
  show "rr_outcome r = fst d" by (simp add: oc d)
  show "markets db' = markResolved (rr_outcome r) now mid (markets db)" by (simp add: eff(3) oc)
  show "positions db' = positions db" by (rule eff(4))
  show "transactions db' = transactions db" by (rule eff(5))
  show "price_history db' = price_history db" by (rule eff(6))
  show "users db' = fst (payWinners (filter (\<lambda>p. pos_market_id p = mid \<and> pos_type p = rr_outcome r) (positions db)) (users db) [])"
    by (simp add: eff(7) oc)
  show "rr_payouts r = snd (payWinners (filter (\<lambda>p. pos_market_id p = mid \<and> pos_type p = rr_outcome r) (positions db)) (users db) [])"
    by (simp add: eff(8) oc)
  show "resolved_by (rr_resolution r) = by" by (simp add: row)
qed

lemma resolved_market_after:
  assumes "resolveMarket h now rid db mid mo by = (db', Inr r)
           \<or> resolveMarket_part_003 h now rid db mid mo by = (db', Inr r)"
  shows "\<exists>m. getMarket db' mid = Some m \<and> status m = Resolved"
proof -
  obtain market d where m: "getMarket db mid = Some market"
    and S: "settle now rid db mid market d by = (db', Inr r)"
    using resolve_success_settle[OF assms] by blast
  have mid_id: "market_id market = mid"
    using m unfolding getMarket_def by (auto dest: find_Some_iff[THEN iffD1])
  have "getMarket db' mid = map_option (\<lambda>m. if market_id m = mid
               then m\<lparr>status := Resolved, outcome := Some (rr_outcome r), resolved_at := Some now\<rparr> else m)
       (getMarket db mid)"
    unfolding getMarket_def settle_effect(7)[OF S] markResolved_def by (simp add: find_map_preserving)
  then show ?thesis using m mid_id by simp
qed

lemma resolve_resolved:
  assumes "getMarket db mid = Some m" "status m = Resolved"
  shows "resolveMarket h now rid db mid mo by = (db, Inl (Error ''Market is already resolved''))"
    and "resolveMarket_part_003 h now rid db mid mo by = (db, Inl (Error ''Market is already resolved''))"
  using assms by (simp_all add: resolveMarket_def resolveMarket_part_003_def)

lemma oracleDecision_failure:
  assumes "\<not> ds_success (fetchFromSource h (resolution_source m))
           \<or> extractValue h (ds_data (fetchFromSource h (resolution_source m)))
                (criteria_path (resolution_criteria m)) = None"
  shows "oracleDecision h m =
     Inl (Error (if \<not> ds_success (fetchFromSource h (resolution_source m))
                 then ''Failed to fetch data: '' @ ds_error (fetchFromSource h (resolution_source m))
                 else ''Could not extract value at path: '' @ criteria_path (resolution_criteria m)))"
  using assms by (auto simp: oracleDecision_def Let_def)

lemma example_getMarket: "getMarket example_db ''m1'' = Some example_market"
  by (simp add: getMarket_def example_db_def example_market_def)

lemma example_resolved_result: "snd example_resolved = Inr example_result"
  unfolding example_resolved_def example_result_def
  by (simp add: resolveMarket_def example_getMarket settle_def executeResolution_def decide_def manualDecision_def
        insertResolution_def markResolved_def Let_def creditBalance_def)
     (simp add: example_db_def example_market_def creditBalance_def)

lemma example_resolved_eq:
  "resolveMarket failing_host example_now ''r1'' example_db ''m1'' (Some YES) ''manual''
     = (fst example_resolved, Inr example_result)"
  using example_resolved_result by (simp add: example_resolved_def prod_eq_iff)

lemma example_positions_unique: "positions_unique example_db"
  by (simp add: positions_unique_def example_db_def)

lemma example_resolved_market:
  "getMarket (fst example_resolved) ''m1'' = Some example_market_resolved"
  by (simp add: example_resolved_def example_market_resolved_def resolveMarket_def getMarket_def
        settle_def executeResolution_def decide_def manualDecision_def insertResolution_def
        markResolved_def Let_def creditBalance_def example_db_def example_market_def)

lemma example_yes_price: "getYesPrice example_market = 1 / 2"
  by (simp add: getYesPrice_def example_market_def)

section \<open>Claims about the resolution service\<close>

text \<open>
  C1: when a market is resolved with outcome \<open>o\<close>, the transaction inserts the resolution
  row, marks the market resolved with that outcome, credits the owner of every position row
  of the market on side \<open>o\<close> with exactly \<open>shares \<times> 1.0\<close>, and leaves every position row as
  it was (no row is changed, the losing ones included); users without a winning position
  keep their balance. Both versions of the service. The hypothesis on the positions is the
  schema's \<open>UNIQUE(user_id, market_id, position_type)\<close>.
\<close>

theorem resolution_pays_winners:
  assumes R: "resolveMarket h now rid db mid mo by = (db', Inr r)
              \<or> resolveMarket_part_003 h now rid db mid mo by = (db', Inr r)"
    and U: "positions_unique db"
  shows "resolutions db' = resolutions db @ [rr_resolution r]
     \<and> res_market_id (rr_resolution r) = mid
     \<and> res_outcome (rr_resolution r) = rr_outcome r
     \<and> markets db' = markResolved (rr_outcome r) now mid (markets db)
     \<and> (\<exists>m. getMarket db' mid = Some m \<and> status m = Resolved \<and> outcome m = Some (rr_outcome r))
     \<and> (\<forall>p \<in> set (positions db). pos_market_id p = mid \<and> pos_type p = rr_outcome r \<longrightarrow>
           users db' (pos_user_id p)
             = map_option (\<lambda>u. u\<lparr>balance := balance u + pos_shares p * 1.0\<rparr>) (users db (pos_user_id p)))
     \<and> (\<forall>uid. (\<forall>p \<in> set (positions db). pos_market_id p = mid \<and> pos_type p = rr_outcome r
                    \<longrightarrow> pos_user_id p \<noteq> uid) \<longrightarrow> users db' uid = users db uid)
     \<and> positions db' = positions db
     \<and> transactions db' = transactions db
     \<and> price_history db' = price_history db"
proof -
  obtain market d where m: "getMarket db mid = Some market" "status market \<noteq> Resolved"
    and S: "settle now rid db mid market d by = (db', Inr r)"
    using resolve_success_settle[OF R] by blast
  note eff = settle_effect[OF S]
  define W where "W = filter (\<lambda>p. pos_market_id p = mid \<and> pos_type p = rr_outcome r) (positions db)"
  have users': "users db' uid = map_option (\<lambda>u. u\<lparr>balance := balance u
        + sum_list (map pos_shares (filter (\<lambda>p. pos_user_id p = uid) W))\<rparr>) (users db uid)" for uid
    unfolding eff(11) W_def by (rule payWinners_users)
  have mid_id: "market_id market = mid"
    using m(1) unfolding getMarket_def by (auto dest: find_Some_iff[THEN iffD1])
  have "getMarket db' mid = map_option (\<lambda>m. if market_id m = mid
               then m\<lparr>status := Resolved, outcome := Some (rr_outcome r), resolved_at := Some now\<rparr> else m)
       (getMarket db mid)"
    unfolding getMarket_def eff(7) markResolved_def by (simp add: find_map_preserving)
  then have gm: "\<exists>m. getMarket db' mid = Some m \<and> status m = Resolved \<and> outcome m = Some (rr_outcome r)"
    using m(1) mid_id by simp
  have win: "users db' (pos_user_id p)
             = map_option (\<lambda>u. u\<lparr>balance := balance u + pos_shares p * 1.0\<rparr>) (users db (pos_user_id p))"
    if "p \<in> set (positions db)" "pos_market_id p = mid" "pos_type p = rr_outcome r" for p
    using winners_of_user[OF U that] by (simp add: users' W_def)
  have lose: "users db' uid = users db uid"
    if "\<forall>p \<in> set (positions db). pos_market_id p = mid \<and> pos_type p = rr_outcome r \<longrightarrow> pos_user_id p \<noteq> uid" for uid
  proof -
    have "filter (\<lambda>p. pos_user_id p = uid) W = []"
      using that by (auto simp: W_def filter_empty_conv)
    then show ?thesis by (cases "users db uid") (simp_all add: users')
  qed
  show ?thesis
    using eff(1,3,4,7,8,9,10) gm win lose by blast
qed

text \<open>C1 at the payout scenario: resolved YES, A's balance grows by 30, B's stays, the
  positions stay.\<close>

theorem resolution_pays_winners_witness:
  "(resolveMarket failing_host example_now ''r1'' example_db ''m1'' (Some YES) ''manual''
       = (fst example_resolved, Inr example_result)
     \<or> resolveMarket_part_003 failing_host example_now ''r1'' example_db ''m1'' (Some YES) ''manual''
       = (fst example_resolved, Inr example_result))
   \<and> positions_unique example_db
   \<and> resolutions (fst example_resolved) = [rr_resolution example_result]
   \<and> (\<exists>m. getMarket (fst example_resolved) ''m1'' = Some m \<and> status m = Resolved \<and> outcome m = Some YES)
   \<and> users (fst example_resolved) ''A'' = Some \<lparr>balance = 1030\<rparr>
   \<and> users (fst example_resolved) ''B'' = Some \<lparr>balance = 1000\<rparr>
   \<and> positions (fst example_resolved) = positions example_db"
proof -
  have R: "resolveMarket failing_host example_now ''r1'' example_db ''m1'' (Some YES) ''manual''
       = (fst example_resolved, Inr example_result)
     \<or> resolveMarket_part_003 failing_host example_now ''r1'' example_db ''m1'' (Some YES) ''manual''
       = (fst example_resolved, Inr example_result)"
    using example_resolved_eq by simp
  note T = resolution_pays_winners[OF R example_positions_unique]
  have oc: "rr_outcome example_result = YES" by (simp add: example_result_def)
  have a: "users (fst example_resolved) ''A'' = Some \<lparr>balance = 1030\<rparr>"
  proof -
    let ?p = "\<lparr>pos_id = ''p1'', pos_user_id = ''A'', pos_market_id = ''m1'', pos_type = YES,
          pos_shares = 30, pos_avg_price = 0.45\<rparr>"
    have T6: "users (fst example_resolved) (pos_user_id p)
             = map_option (\<lambda>u. u\<lparr>balance := balance u + pos_shares p * 1.0\<rparr>) (users example_db (pos_user_id p))"
      if "p \<in> set (positions example_db)" "pos_market_id p = ''m1''" "pos_type p = rr_outcome example_result" for p
      using T that by blast
    have "?p \<in> set (positions example_db)" by (simp add: example_db_def)
    from T6[OF this] show ?thesis by (simp add: example_db_def oc)
  qed
  have b: "users (fst example_resolved) ''B'' = Some \<lparr>balance = 1000\<rparr>"
  proof -
    have "\<forall>p \<in> set (positions example_db). pos_market_id p = ''m1'' \<and> pos_type p = rr_outcome example_result
                    \<longrightarrow> pos_user_id p \<noteq> ''B''"
      by (simp add: example_db_def oc)
    with T have "users (fst example_resolved) ''B'' = users example_db ''B''" by blast
    then show ?thesis by (simp add: example_db_def)
  qed
  have "resolutions (fst example_resolved) = [rr_resolution example_result]"
    using T by (simp add: example_db_def)
  moreover have "\<exists>m. getMarket (fst example_resolved) ''m1'' = Some m \<and> status m = Resolved \<and> outcome m = Some YES"
    using T oc by simp
  moreover have "positions (fst example_resolved) = positions example_db"
    using T by simp
  ultimately show ?thesis using R example_positions_unique a b by blast
qed

text \<open>
  C4: resolving a market whose status is \<open>resolved\<close> fails with ``Market is already
  resolved'' and returns the store untouched; in particular, after a resolve that succeeded,
  every further resolve of the same market fails that way, so nobody is paid twice and the
  stored resolution row stays. Both versions of the service.
\<close>

theorem resolve_already_resolved:
  "(getMarket db mid = Some m \<and> status m = Resolved \<longrightarrow>
      resolveMarket h now rid db mid mo by = (db, Inl (Error ''Market is already resolved''))
      \<and> resolveMarket_part_003 h now rid db mid mo by = (db, Inl (Error ''Market is already resolved'')))
   \<and> (resolveMarket h now rid db mid mo by = (db', Inr r)
        \<or> resolveMarket_part_003 h now rid db mid mo by = (db', Inr r) \<longrightarrow>
      resolveMarket h2 now2 rid2 db' mid mo2 by2 = (db', Inl (Error ''Market is already resolved''))
      \<and> resolveMarket_part_003 h2 now2 rid2 db' mid mo2 by2 = (db', Inl (Error ''Market is already resolved'')))"
proof (rule conjI; rule impI)
  assume "getMarket db mid = Some m \<and> status m = Resolved"
  then show "resolveMarket h now rid db mid mo by = (db, Inl (Error ''Market is already resolved''))
      \<and> resolveMarket_part_003 h now rid db mid mo by = (db, Inl (Error ''Market is already resolved''))"
    using resolve_resolved[of db mid m] by simp
next
  assume R: "resolveMarket h now rid db mid mo by = (db', Inr r)
        \<or> resolveMarket_part_003 h now rid db mid mo by = (db', Inr r)"
  obtain m' where "getMarket db' mid = Some m'" "status m' = Resolved"
    using resolved_market_after[OF R] by blast
  then show "resolveMarket h2 now2 rid2 db' mid mo2 by2 = (db', Inl (Error ''Market is already resolved''))
      \<and> resolveMarket_part_003 h2 now2 rid2 db' mid mo2 by2 = (db', Inl (Error ''Market is already resolved''))"
    using resolve_resolved[of db' mid m'] by simp
qed

text \<open>C4 at the payout scenario, after its market has been resolved YES.\<close>

theorem resolve_already_resolved_witness:
  "(getMarket (fst example_resolved) ''m1'' = Some example_market_resolved
      \<and> status example_market_resolved = Resolved)
   \<and> resolveMarket failing_host example_now ''r2'' (fst example_resolved) ''m1'' (Some NO) ''manual''
        = (fst example_resolved, Inl (Error ''Market is already resolved''))
   \<and> resolveMarket_part_003 failing_host example_now ''r2'' (fst example_resolved) ''m1'' (Some NO) ''manual''
        = (fst example_resolved, Inl (Error ''Market is already resolved''))
   \<and> (resolveMarket failing_host example_now ''r1'' example_db ''m1'' (Some YES) ''manual''
         = (fst example_resolved, Inr example_result)
       \<or> resolveMarket_part_003 failing_host example_now ''r1'' example_db ''m1'' (Some YES) ''manual''
         = (fst example_resolved, Inr example_result))
   \<and> resolveMarket failing_host example_now ''r3'' (fst example_resolved) ''m1'' None ''auto''
        = (fst example_resolved, Inl (Error ''Market is already resolved''))"
proof -
  have P: "getMarket (fst example_resolved) ''m1'' = Some example_market_resolved
      \<and> status example_market_resolved = Resolved"
    by (simp add: example_resolved_market) (simp add: example_market_resolved_def)
  have R: "resolveMarket failing_host example_now ''r1'' example_db ''m1'' (Some YES) ''manual''
         = (fst example_resolved, Inr example_result)
       \<or> resolveMarket_part_003 failing_host example_now ''r1'' example_db ''m1'' (Some YES) ''manual''
         = (fst example_resolved, Inr example_result)"
    using example_resolved_eq by simp
  show ?thesis
    using P R
      resolve_already_resolved[of "fst example_resolved" "''m1''" example_market_resolved
        failing_host example_now "''r2''" "Some NO" "''manual''"]
      resolve_already_resolved[of example_db "''m1''" example_market
        failing_host example_now "''r1''" "Some YES" "''manual''" "fst example_resolved" example_result
        failing_host example_now "''r3''" None "''auto''"]
    by blast
qed



text \<open>
  C7, as stated: when the source of a market is a URL and the fetch fails, the resolver
  falls back to the probability. The version of the service in \<open>part_003\<close> has no fallback:
  with a failing fetch the resolve fails with the error and the store is untouched.
\<close>

theorem source_failure_counterexample:
  "resolution_source example_market \<noteq> ''manual''
   \<and> \<not> ds_success (fetchFromSource failing_host (resolution_source example_market))
   \<and> resolveMarket_part_003 failing_host example_now ''r1'' example_db ''m1'' None ''auto''
       = (example_db, Inl (Error ''Failed to fetch data: timeout of 10000ms exceeded''))"
  by (simp add: resolveMarket_part_003_def example_getMarket decide_part_003_def oracleDecision_def Let_def)
     (simp add: example_market_def failing_host_def)

text \<open>
  C7, amended: for a market that exists, is not resolved and whose source is not
  \<open>manual\<close>, resolved without a manual outcome while the fetch fails or no value can be
  extracted at \<open>criteria.path\<close>: the service stored with \<open>ammEngine.ts\<close> resolves by
  probability (YES if and only if \<open>getYesPrice > 0.5\<close>) and stores a resolution row whose
  source response records \<open>fallback: true\<close> and the error message; the service in
  \<open>part_003\<close> fails with that error and persists nothing.
\<close>

theorem source_failure_falls_back:
  assumes "getMarket db mid = Some m" and "status m \<noteq> Resolved"
    and "resolution_source m \<noteq> ''manual''"
    and F: "\<not> ds_success (fetchFromSource h (resolution_source m))
           \<or> extractValue h (ds_data (fetchFromSource h (resolution_source m)))
                (criteria_path (resolution_criteria m)) = None"
    and fresh: "\<forall>x \<in> set (resolutions db). res_id x \<noteq> rid \<and> res_market_id x \<noteq> mid"
  shows "\<exists>err. oracleDecision h m = Inl err
     \<and> message err = (if \<not> ds_success (fetchFromSource h (resolution_source m))
                 then ''Failed to fetch data: '' @ ds_error (fetchFromSource h (resolution_source m))
                 else ''Could not extract value at path: '' @ criteria_path (resolution_criteria m))
     \<and> (\<exists>db' r. resolveMarket h now rid db mid None by = (db', Inr r)
           \<and> (rr_outcome r = YES \<longleftrightarrow> getYesPrice m > 0.5)
           \<and> resolutions db' = resolutions db @ [rr_resolution r]
           \<and> res_market_id (rr_resolution r) = mid
           \<and> res_outcome (rr_resolution r) = rr_outcome r
           \<and> source_response (rr_resolution r) =
                JObj [(''fallback'', JBool True), (''error'', JStr (message err)),
                      (''probability_based'', JBool True), (''yes_price'', JNum (getYesPrice m)),
                      (''outcome'', JStr (outcome_string (rr_outcome r)))])
     \<and> resolveMarket_part_003 h now rid db mid None by = (db, Inl err)"
proof -
  define err where "err = Error (if \<not> ds_success (fetchFromSource h (resolution_source m))
                 then ''Failed to fetch data: '' @ ds_error (fetchFromSource h (resolution_source m))
                 else ''Could not extract value at path: '' @ criteria_path (resolution_criteria m))"
  have o: "oracleDecision h m = Inl err"
    unfolding err_def by (rule oracleDecision_failure[OF F])
  have d: "decide h m None = fallbackDecision h m err"
    using assms(3) o by (simp add: decide_def)
  obtain db' r where S: "settle now rid db mid m (fallbackDecision h m err) by = (db', Inr r)"
    using settle_succeeds[OF fresh] by blast
  have R: "resolveMarket h now rid db mid None by = (db', Inr r)"
    using assms(1,2) S d by (simp add: resolveMarket_def)
  note eff = settle_effect[OF S]
  have oc: "rr_outcome r = (if getYesPrice m > 0.5 then YES else NO)"
    using eff(6) by (simp add: fallbackDecision_def Let_def)
  have blob: "source_response (rr_resolution r) =
                JObj [(''fallback'', JBool True), (''error'', JStr (message err)),
                      (''probability_based'', JBool True), (''yes_price'', JNum (getYesPrice m)),
                      (''outcome'', JStr (outcome_string (rr_outcome r)))]"
    unfolding eff(5) oc by (simp add: fallbackDecision_def Let_def)
  have R3: "resolveMarket_part_003 h now rid db mid None by = (db, Inl err)"
    using assms(1,2) o by (simp add: resolveMarket_part_003_def decide_part_003_def)
  have "rr_outcome r = YES \<longleftrightarrow> getYesPrice m > 0.5" using oc by simp
  then have "\<exists>db' r. resolveMarket h now rid db mid None by = (db', Inr r)
           \<and> (rr_outcome r = YES \<longleftrightarrow> getYesPrice m > 0.5)
           \<and> resolutions db' = resolutions db @ [rr_resolution r]
           \<and> res_market_id (rr_resolution r) = mid
           \<and> res_outcome (rr_resolution r) = rr_outcome r
           \<and> source_response (rr_resolution r) =
                JObj [(''fallback'', JBool True), (''error'', JStr (message err)),
                      (''probability_based'', JBool True), (''yes_price'', JNum (getYesPrice m)),
                      (''outcome'', JStr (outcome_string (rr_outcome r)))]"
    using R eff(1,3,4) blob by blast
  moreover have "message err = (if \<not> ds_success (fetchFromSource h (resolution_source m))
                 then ''Failed to fetch data: '' @ ds_error (fetchFromSource h (resolution_source m))
                 else ''Could not extract value at path: '' @ criteria_path (resolution_criteria m))"
    by (simp add: err_def)
  ultimately show ?thesis using o R3 by blast
qed

text \<open>The amended C7 at the payout scenario with the failing data source: the price is
  one half, so the outcome is NO.\<close>

theorem source_failure_falls_back_witness:
  "getMarket example_db ''m1'' = Some example_market
   \<and> status example_market \<noteq> Resolved
   \<and> resolution_source example_market \<noteq> ''manual''
   \<and> \<not> ds_success (fetchFromSource failing_host (resolution_source example_market))
   \<and> resolutions example_db = []
   \<and> (\<exists>db' r. resolveMarket failing_host example_now ''r1'' example_db ''m1'' None ''auto'' = (db', Inr r)
           \<and> rr_outcome r = NO
           \<and> resolutions db' = resolutions example_db @ [rr_resolution r]
           \<and> source_response (rr_resolution r) =
                JObj [(''fallback'', JBool True),
                      (''error'', JStr ''Failed to fetch data: timeout of 10000ms exceeded''),
                      (''probability_based'', JBool True), (''yes_price'', JNum (1 / 2)),
                      (''outcome'', JStr ''NO'')])"
proof -
  have s: "status example_market \<noteq> Resolved" "resolution_source example_market \<noteq> ''manual''"
    by (simp_all add: example_market_def)
  have f: "\<not> ds_success (fetchFromSource failing_host (resolution_source example_market))
        \<or> extractValue failing_host (ds_data (fetchFromSource failing_host (resolution_source example_market)))
                (criteria_path (resolution_criteria example_market)) = None"
    by (simp add: failing_host_def)
  have n: "\<forall>x \<in> set (resolutions example_db). res_id x \<noteq> ''r1'' \<and> res_market_id x \<noteq> ''m1''"
    by (simp add: example_db_def)
  from source_failure_falls_back[OF example_getMarket s f n, of example_now "''auto''"]
  obtain err db' r where e: "message err = (if \<not> ds_success (fetchFromSource failing_host (resolution_source example_market))
                 then ''Failed to fetch data: '' @ ds_error (fetchFromSource failing_host (resolution_source example_market))
                 else ''Could not extract value at path: '' @ criteria_path (resolution_criteria example_market))"
    and R: "resolveMarket failing_host example_now ''r1'' example_db ''m1'' None ''auto'' = (db', Inr r)"
    and oc: "rr_outcome r = YES \<longleftrightarrow> getYesPrice example_market > 0.5"
    and rs: "resolutions db' = resolutions example_db @ [rr_resolution r]"
    and blob: "source_response (rr_resolution r) =
                JObj [(''fallback'', JBool True), (''error'', JStr (message err)),
                      (''probability_based'', JBool True), (''yes_price'', JNum (getYesPrice example_market)),
                      (''outcome'', JStr (outcome_string (rr_outcome r)))]"
    by blast
  have no: "rr_outcome r = NO" using oc by (cases "rr_outcome r") (simp_all add: example_yes_price)
  have msg: "message err = ''Failed to fetch data: timeout of 10000ms exceeded''"
    using e by (simp add: failing_host_def)
  have "source_response (rr_resolution r) =
                JObj [(''fallback'', JBool True),
                      (''error'', JStr ''Failed to fetch data: timeout of 10000ms exceeded''),
                      (''probability_based'', JBool True), (''yes_price'', JNum (1 / 2)),
                      (''outcome'', JStr ''NO'')]"
    unfolding blob msg no example_yes_price by simp
  moreover have "\<not> ds_success (fetchFromSource failing_host (resolution_source example_market))"
    by (simp add: failing_host_def)
  moreover have "resolutions example_db = []" by (simp add: example_db_def)
  ultimately show ?thesis using example_getMarket s R no rs by blast
qed

text \<open>
  C9, as stated: \<open>getMarketsForResolution\<close> returns exactly the open markets whose close
  time has passed. The version in \<open>part_003\<close> leaves out the markets whose source is
  \<open>manual\<close>: an open manual market that closed the day before is not returned.
\<close>

theorem markets_due_counterexample:
  "example_manual_market \<in> set (markets example_manual_db)
   \<and> status example_manual_market = Open
   \<and> closes_at example_manual_market \<le> example_now
   \<and> example_manual_market \<notin> set (getMarketsForResolution_part_003 example_now example_manual_db)"
  by (simp add: getMarketsForResolution_part_003_def example_manual_db_def example_manual_market_def
        example_now_def)

text \<open>
  C9, amended: \<open>getMarketsForResolution\<close> of the service stored with \<open>ammEngine.ts\<close>
  returns exactly the markets with status \<open>open\<close> and \<open>closes_at \<le> now\<close>; the one in
  \<open>part_003\<close> returns exactly those of them whose resolution source is not \<open>manual\<close>.
\<close>

theorem markets_due:
  "(m \<in> set (getMarketsForResolution now db)
      \<longleftrightarrow> m \<in> set (markets db) \<and> status m = Open \<and> closes_at m \<le> now)
   \<and> (m \<in> set (getMarketsForResolution_part_003 now db)
      \<longleftrightarrow> m \<in> set (markets db) \<and> status m = Open \<and> closes_at m \<le> now
          \<and> resolution_source m \<noteq> ''manual'')"
  by (auto simp: getMarketsForResolution_def getMarketsForResolution_part_003_def)

section \<open>Facts about the trading service\<close>

lemma recordTrade_Inr:
  assumes "recordTrade txId phId db req market result ty shs cash = Inr db'"
  shows "users db' = users db" and "markets db' = markets db" and "positions db' = positions db"
    and "resolutions db' = resolutions db"
    and "transactions db' = transactions db @
           [\<lparr>tx_id = txId, tx_user_id = userId req, tx_market_id = marketId req,
              tx_type = ty, tx_position_type = positionType req, tx_shares = shs,
              tx_price_per_share = tr_avgPricePerShare result, tx_total_cost = cash\<rparr>]"
    and "length (price_history db') = Suc (length (price_history db))"
  using assms
  by (auto simp: recordTrade_def insertTransaction_def insertPriceHistory_def Let_def
           split: if_splits)











lemma sellTransaction_Inr:
  assumes "sellTransaction txId phId db req market position result = Inr (db', newShares)"
  shows "users db' = creditBalance (tr_totalCost result) (userId req) (users db)"
    and "markets db' = updateMarket (newYesShares result) (newNoShares result) (marketId req) (markets db)"
    and "resolutions db' = resolutions db"
    and "newShares = pos_shares position - amount req"
    and "positions db' =
           (if pos_shares position - amount req \<le> 0.0001
            then deletePosition (pos_id position) (positions db)
            else updatePositionSell (pos_shares position - amount req) (pos_id position) (positions db))"
    and "transactions db' = transactions db @
           [\<lparr>tx_id = txId, tx_user_id = userId req, tx_market_id = marketId req,
              tx_type = SELL, tx_position_type = positionType req, tx_shares = amount req,
              tx_price_per_share = tr_avgPricePerShare result, tx_total_cost = tr_totalCost result\<rparr>]"
proof -
  define db3 where "db3 =
     (if pos_shares position - amount req \<le> 0.0001
      then db\<lparr>markets := updateMarket (newYesShares result) (newNoShares result) (marketId req) (markets db),
              users := creditBalance (tr_totalCost result) (userId req) (users db),
              positions := deletePosition (pos_id position) (positions db)\<rparr>
      else db\<lparr>markets := updateMarket (newYesShares result) (newNoShares result) (marketId req) (markets db),
              users := creditBalance (tr_totalCost result) (userId req) (users db),
              positions := updatePositionSell (pos_shares position - amount req) (pos_id position) (positions db)\<rparr>)"
  have rt: "recordTrade txId phId db3 req market result SELL (amount req) (tr_totalCost result) = Inr db'"
    and ns: "newShares = pos_shares position - amount req"
    using assms by (auto simp: sellTransaction_def Let_def db3_def split: sum.splits if_splits)
  note r = recordTrade_Inr[OF rt]
  show "users db' = creditBalance (tr_totalCost result) (userId req) (users db)"
    by (simp add: r(1) db3_def)
  show "markets db' = updateMarket (newYesShares result) (newNoShares result) (marketId req) (markets db)"
    by (simp add: r(2) db3_def)
  show "resolutions db' = resolutions db" by (simp add: r(4) db3_def)
  show "newShares = pos_shares position - amount req" by (rule ns)
  show "positions db' =
           (if pos_shares position - amount req \<le> 0.0001
            then deletePosition (pos_id position) (positions db)
            else updatePositionSell (pos_shares position - amount req) (pos_id position) (positions db))"
    by (simp add: r(3) db3_def)
  show "transactions db' = transactions db @
           [\<lparr>tx_id = txId, tx_user_id = userId req, tx_market_id = marketId req,
              tx_type = SELL, tx_position_type = positionType req, tx_shares = amount req,
              tx_price_per_share = tr_avgPricePerShare result, tx_total_cost = tr_totalCost result\<rparr>]"
    by (simp add: r(5) db3_def)
qed

lemma executeSellTrade_cases:
  assumes "executeSellTrade txId phId db req = (db', res)"
  obtains (failed) e where "db' = db" "res = Inl e"
  | (committed) market position newShares where
      "getMarket db (marketId req) = Some market" "status market = Open"
      "getPosition db (userId req) (marketId req) (positionType req) = Some position"
      "amount req \<le> pos_shares position"
      "sellTransaction txId phId db req market position
         (executeSell market (positionType req) (amount req)) = Inr (db', newShares)"
      "\<And>resp. res = Inr resp \<Longrightarrow>
         resp_totalCost resp = tr_totalCost (executeSell market (positionType req) (amount req))
         \<and> resp_shares resp = amount req
         \<and> position_avgPrice resp = pos_avg_price position
         \<and> position_shares resp = max 0 (pos_shares position - amount req)
         \<and> users db' (userId req) = Some \<lparr>balance = newBalance resp\<rparr>"
proof (cases "getMarket db (marketId req)")
  case None
  then have "executeSellTrade txId phId db req = (db, Inl (Error ''Market not found''))"
    by (simp add: executeSellTrade_def getMarketState_def)
  with assms have "db' = db" "res = Inl (Error ''Market not found'')" by simp_all
  then show ?thesis by (rule failed)
next
  case (Some market)
  note m = Some
  show ?thesis
  proof (cases "status market = Open")
    case False
    then have "executeSellTrade txId phId db req = (db, Inl (Error ''Market is not open for trading''))"
      using m by (simp add: executeSellTrade_def getMarketState_def)
    with assms have "db' = db" "res = Inl (Error ''Market is not open for trading'')" by simp_all
    then show ?thesis by (rule failed)
  next
    case isopen: True
    show ?thesis
    proof (cases "getPosition db (userId req) (marketId req) (positionType req)")
      case None
      then have "executeSellTrade txId phId db req = (db, Inl (Error ''Insufficient shares to sell''))"
        using m isopen by (simp add: executeSellTrade_def getMarketState_def)
      with assms have "db' = db" "res = Inl (Error ''Insufficient shares to sell'')" by simp_all
      then show ?thesis by (rule failed)
    next
      case (Some position)
      note p = Some
      show ?thesis
      proof (cases "pos_shares position < amount req")
        case True
        then have "executeSellTrade txId phId db req = (db, Inl (Error ''Insufficient shares to sell''))"
          using m isopen p by (simp add: executeSellTrade_def getMarketState_def)
        with assms have "db' = db" "res = Inl (Error ''Insufficient shares to sell'')" by simp_all
        then show ?thesis by (rule failed)
      next
        case False
        show ?thesis
        proof (cases "sellTransaction txId phId db req market position
                        (executeSell market (positionType req) (amount req))")
          case (Inl e)
          have "executeSellTrade txId phId db req = (db, Inl e)"
            using m isopen p False Inl by (simp add: executeSellTrade_def getMarketState_def Let_def)
          with assms have "db' = db" "res = Inl e" by simp_all
          then show ?thesis by (rule failed)
        next
          case (Inr x)
          obtain db1 newShares where x: "x = (db1, newShares)" by (cases x) auto
          have ns: "newShares = pos_shares position - amount req"
            using sellTransaction_Inr(4)[OF Inr[unfolded x]] .
          have run: "executeSellTrade txId phId db req =
             (case users db1 (userId req) of
                None \<Rightarrow> (db1, Inl (TypeError ''Cannot read properties of undefined (reading balance)''))
              | Some updatedUser \<Rightarrow>
                  (db1, Inr \<lparr>success = True, transactionId = txId,
                     resp_shares = amount req,
                     pricePerShare = tr_avgPricePerShare (executeSell market (positionType req) (amount req)),
                     resp_totalCost = tr_totalCost (executeSell market (positionType req) (amount req)),
                     newBalance = balance updatedUser,
                     position_shares = max 0 newShares,
                     position_avgPrice = pos_avg_price position\<rparr>))"
            using m isopen p False Inr x by (simp add: executeSellTrade_def getMarketState_def Let_def)
          have db1: "db' = db1"
            using assms unfolding run by (simp split: option.splits)
          show ?thesis
          proof (rule committed[of market position newShares])
            show "amount req \<le> pos_shares position" using False by simp
            show "sellTransaction txId phId db req market position
                    (executeSell market (positionType req) (amount req)) = Inr (db', newShares)"
              using Inr x db1 by simp
            show "resp_totalCost resp = tr_totalCost (executeSell market (positionType req) (amount req))
               \<and> resp_shares resp = amount req
               \<and> position_avgPrice resp = pos_avg_price position
               \<and> position_shares resp = max 0 (pos_shares position - amount req)
               \<and> users db' (userId req) = Some \<lparr>balance = newBalance resp\<rparr>"
              if "res = Inr resp" for resp
              using that assms ns db1 unfolding run
              by (cases "users db1 (userId req)") auto
          qed (use m isopen p in simp_all)
        qed
      qed
    qed
  qed
qed










lemma example_sell_runs:
  "\<exists>resp. executeSellTrade ''t1'' ''h1'' example_db example_sell
      = (fst (executeSellTrade ''t1'' ''h1'' example_db example_sell), Inr resp)"
  by (simp add: executeSellTrade_def getMarketState_def getMarket_def example_sell_def Let_def
        sellTransaction_def getPosition_def recordTrade_def
        insertTransaction_def insertPriceHistory_def creditBalance_def example_db_def
        example_market_def)

lemma example_sell_position:
  "getPosition example_db (userId example_sell) (marketId example_sell) (positionType example_sell)
     = Some \<lparr>pos_id = ''p1'', pos_user_id = ''A'', pos_market_id = ''m1'', pos_type = YES,
          pos_shares = 30, pos_avg_price = 0.45\<rparr>"
  by (simp add: getPosition_def example_sell_def example_db_def)



section \<open>Claims about the trading service\<close>






text \<open>
  C8: an executed sell leaves the position with \<open>shares - shares_to_sell\<close>; when that is at
  most \<open>10\<^sup>-\<^sup>4\<close> the row is deleted, otherwise only its \<open>shares\<close> field changes: the
  average price of every row is the one it had, and the response reports it.
\<close>

theorem sell_reduces_position:
  assumes "executeSellTrade txId phId db req = (db', Inr resp)"
    and "getPosition db (userId req) (marketId req) (positionType req) = Some position"
  shows "positions db' =
           (if pos_shares position - amount req \<le> 0.0001
            then filter (\<lambda>p. pos_id p \<noteq> pos_id position) (positions db)
            else map (\<lambda>p. if pos_id p = pos_id position
                           then p\<lparr>pos_shares := pos_shares position - amount req\<rparr> else p)
                   (positions db))
     \<and> (pos_shares position - amount req \<le> 0.0001 \<longrightarrow>
           (\<forall>p \<in> set (positions db'). pos_id p \<noteq> pos_id position))
     \<and> (\<not> pos_shares position - amount req \<le> 0.0001 \<longrightarrow>
           getPosition db' (userId req) (marketId req) (positionType req)
             = Some (position\<lparr>pos_shares := pos_shares position - amount req\<rparr>)
           \<and> map pos_avg_price (positions db') = map pos_avg_price (positions db))
     \<and> position_shares resp = max 0 (pos_shares position - amount req)
     \<and> position_avgPrice resp = pos_avg_price position"
  using assms(1)
proof (cases rule: executeSellTrade_cases)
  case (failed e)
  then show ?thesis by simp
next
  case (committed market position' newShares)
  have p: "position' = position" using committed(3) assms(2) by simp
  note t = sellTransaction_Inr[OF committed(5)[unfolded p]]
  note r = committed(6)[OF refl, unfolded p]
  have ps: "positions db' =
           (if pos_shares position - amount req \<le> 0.0001
            then filter (\<lambda>p. pos_id p \<noteq> pos_id position) (positions db)
            else map (\<lambda>p. if pos_id p = pos_id position
                           then p\<lparr>pos_shares := pos_shares position - amount req\<rparr> else p)
                   (positions db))"
    by (simp add: t(5) deletePosition_def updatePositionSell_def)
  have del: "\<forall>p \<in> set (positions db'). pos_id p \<noteq> pos_id position"
    if "pos_shares position - amount req \<le> 0.0001"
    using that by (simp add: ps)
  have upd: "getPosition db' (userId req) (marketId req) (positionType req)
             = Some (position\<lparr>pos_shares := pos_shares position - amount req\<rparr>)
           \<and> map pos_avg_price (positions db') = map pos_avg_price (positions db)"
    if n: "\<not> pos_shares position - amount req \<le> 0.0001"
  proof -
    let ?f = "\<lambda>p. if pos_id p = pos_id position
                           then p\<lparr>pos_shares := pos_shares position - amount req\<rparr> else p"
    have "getPosition db' (userId req) (marketId req) (positionType req)
            = map_option ?f (getPosition db (userId req) (marketId req) (positionType req))"
      unfolding getPosition_def using n by (simp add: ps find_map_preserving)
    moreover have "map pos_avg_price (positions db') = map pos_avg_price (positions db)"
      using n by (simp add: ps)
    ultimately show ?thesis using assms(2) by simp
  qed
  show ?thesis using ps del upd r by blast
qed

text \<open>C8 at the payout scenario: A sells 10 of 30 YES shares and keeps 20 at 0.45.\<close>

theorem sell_reduces_position_witness:
  "(\<exists>resp. executeSellTrade ''t1'' ''h1'' example_db example_sell
      = (fst (executeSellTrade ''t1'' ''h1'' example_db example_sell), Inr resp))
   \<and> getPosition example_db (userId example_sell) (marketId example_sell) (positionType example_sell)
     = Some \<lparr>pos_id = ''p1'', pos_user_id = ''A'', pos_market_id = ''m1'', pos_type = YES,
          pos_shares = 30, pos_avg_price = 0.45\<rparr>
   \<and> positions (fst (executeSellTrade ''t1'' ''h1'' example_db example_sell))
       = [\<lparr>pos_id = ''p1'', pos_user_id = ''A'', pos_market_id = ''m1'', pos_type = YES,
           pos_shares = 20, pos_avg_price = 0.45\<rparr>,
          \<lparr>pos_id = ''p2'', pos_user_id = ''B'', pos_market_id = ''m1'', pos_type = NO,
           pos_shares = 20, pos_avg_price = 0.55\<rparr>]"
proof -
  obtain resp where r: "executeSellTrade ''t1'' ''h1'' example_db example_sell
      = (fst (executeSellTrade ''t1'' ''h1'' example_db example_sell), Inr resp)"
    using example_sell_runs by blast
  from sell_reduces_position[OF r example_sell_position]
  have "positions (fst (executeSellTrade ''t1'' ''h1'' example_db example_sell))
       = [\<lparr>pos_id = ''p1'', pos_user_id = ''A'', pos_market_id = ''m1'', pos_type = YES,
           pos_shares = 20, pos_avg_price = 0.45\<rparr>,
          \<lparr>pos_id = ''p2'', pos_user_id = ''B'', pos_market_id = ''m1'', pos_type = NO,
           pos_shares = 20, pos_avg_price = 0.55\<rparr>]"
    by (simp add: example_sell_def example_db_def)
  then show ?thesis using r example_sell_position by blast
qed

end
